theory Spec2Isabelle
  imports Main "HOL-Library.Word" "HOL-Library.Signed_Division" "HOL-Library.Monad_Syntax"
begin

unbundle bit_operations_syntax

section \<open>Go values\<close>

text \<open>
  A Go \<^verbatim>\<open>byte\<close> is an 8-bit word, a \<^verbatim>\<open>rune\<close> is an \<^verbatim>\<open>int32\<close> (no arithmetic of the
  program overflows it, so it is an \<^typ>\<open>int\<close>), an \<^verbatim>\<open>int\<close> is an \<^typ>\<open>int\<close>. A Go
  \<^verbatim>\<open>string\<close> and a \<^verbatim>\<open>[]byte\<close> are both lists of bytes. A run-time panic of Go is a
  value of type \<open>panic\<close>, returned on the left of a sum.
\<close>

type_synonym byte = "8 word"
type_synonym rune = int
type_synonym gostring = "byte list"

datatype panic = IndexOutOfRange | SliceBoundsOutOfRange | NilDereference | DivideByZero

text \<open>The bytes of an ASCII literal.\<close>

definition str :: "string \<Rightarrow> gostring" where
  "str s = map of_char s"

text \<open>Go's \<^verbatim>\<open>%\<close> on \<^verbatim>\<open>int\<close>: the remainder of the division that truncates towards zero.\<close>

definition go_rem :: "int \<Rightarrow> int \<Rightarrow> panic + int" where
  "go_rem a b = (if b = 0 then Inl DivideByZero else Inr (a smod b))"

section \<open>Ring history: \<^verbatim>\<open>stRingBuffer\<close>\<close>

record stRingBuffer =
  entries :: "gostring list"
  max_ring :: int
  head :: int
  size_ring :: int

text \<open>The zero value of the struct; \<^verbatim>\<open>entries == nil\<close> is the empty list.\<close>

definition emptyRing :: stRingBuffer where
  "emptyRing = \<lparr>entries = [], max_ring = 0, head = 0, size_ring = 0\<rparr>"

definition defaultNumEntries :: int where
  "defaultNumEntries = 100"

definition Add :: "stRingBuffer \<Rightarrow> gostring \<Rightarrow> panic + stRingBuffer" where
  "Add s a =
     (let s1 = (if entries s = []
                then s\<lparr>entries := replicate (nat defaultNumEntries) [], max_ring := defaultNumEntries\<rparr>
                else s)
      in case go_rem (head s1 + 1) (max_ring s1) of
           Inl e \<Rightarrow> Inl e
         | Inr h \<Rightarrow>
             if 0 \<le> h \<and> h < int (length (entries s1))
             then (let s2 = s1\<lparr>head := h, entries := (entries s1)[nat h := a]\<rparr>
                   in Inr (if size_ring s2 < max_ring s2 then s2\<lparr>size_ring := size_ring s2 + 1\<rparr> else s2))
             else Inl IndexOutOfRange)"

definition NthPreviousEntry :: "stRingBuffer \<Rightarrow> int \<Rightarrow> panic + (gostring \<times> bool)" where
  "NthPreviousEntry s n =
     (if n \<ge> size_ring s then Inr ([], False)
      else (let index = head s - n;
                index = (if index < 0 then index + max_ring s else index)
            in if 0 \<le> index \<and> index < int (length (entries s))
               then Inr (entries s ! nat index, True)
               else Inl IndexOutOfRange))"

text \<open>A sequence of \<^verbatim>\<open>Add\<close> calls, oldest first.\<close>

fun adds :: "stRingBuffer \<Rightarrow> gostring list \<Rightarrow> panic + stRingBuffer" where
  "adds s [] = Inr s"
| "adds s (a # as) = (case Add s a of Inl e \<Rightarrow> Inl e | Inr s' \<Rightarrow> adds s' as)"

text \<open>
  The abstraction relation of the ring: \<open>hist\<close> is every string added so far, the most
  recent first; the ring holds its first \<open>min (length hist) 100\<close> elements, going
  backwards from \<open>head\<close>.
\<close>

definition ring_inv :: "stRingBuffer \<Rightarrow> gostring list \<Rightarrow> bool" where
  "ring_inv s hist \<longleftrightarrow>
     (if entries s = [] then s = emptyRing \<and> hist = []
      else length (entries s) = 100 \<and> max_ring s = 100) \<and>
     0 \<le> head s \<and> head s < 100 \<and>
     size_ring s = int (min (length hist) 100) \<and>
     (\<forall>k < min (length hist) 100.
        entries s ! nat ((head s - int k) mod 100) = hist ! k)"

section \<open>UTF-8 (Go's \<^verbatim>\<open>unicode/utf8\<close>)\<close>

text \<open>
  The decoder of the Go standard library, as the key decoder uses it. \<open>first\<close> is the
  library's table of leading bytes: an ASCII byte, an invalid leading byte, or the leader
  of a sequence of a given length whose second byte must lie in a given range.
\<close>

definition RuneError :: rune where
  "RuneError = 0xFFFD"

datatype first_info = AS | XX | LEAD nat byte byte

definition first :: "byte \<Rightarrow> first_info" where
  "first b =
     (if b < 0x80 then AS
      else if b < 0xC2 then XX
      else if b < 0xE0 then LEAD 2 0x80 0xBF
      else if b = 0xE0 then LEAD 3 0xA0 0xBF
      else if b < 0xED then LEAD 3 0x80 0xBF
      else if b = 0xED then LEAD 3 0x80 0x9F
      else if b < 0xF0 then LEAD 3 0x80 0xBF
      else if b = 0xF0 then LEAD 4 0x90 0xBF
      else if b < 0xF4 then LEAD 4 0x80 0xBF
      else if b = 0xF4 then LEAD 4 0x80 0x8F
      else XX)"

definition FullRune :: "byte list \<Rightarrow> bool" where
  "FullRune p =
     (case p of
        [] \<Rightarrow> False
      | p0 # _ \<Rightarrow>
          (case first p0 of
             AS \<Rightarrow> True
           | XX \<Rightarrow> True
           | LEAD sz lo hi \<Rightarrow>
               if length p \<ge> sz then True
               else if length p > 1 \<and> (p ! 1 < lo \<or> hi < p ! 1) then True
               else if length p > 2 \<and> (p ! 2 < 0x80 \<or> 0xBF < p ! 2) then True
               else False))"

definition DecodeRune :: "byte list \<Rightarrow> rune \<times> nat" where
  "DecodeRune p =
     (case p of
        [] \<Rightarrow> (RuneError, 0)
      | p0 # _ \<Rightarrow>
          (case first p0 of
             AS \<Rightarrow> (uint p0, 1)
           | XX \<Rightarrow> (RuneError, 1)
           | LEAD sz lo hi \<Rightarrow>
               if length p < sz then (RuneError, 1)
               else if p ! 1 < lo \<or> hi < p ! 1 then (RuneError, 1)
               else if sz \<le> 2
                 then (push_bit 6 (uint (p0 AND 0x1F)) OR uint (p ! 1 AND 0x3F), 2)
               else if p ! 2 < 0x80 \<or> 0xBF < p ! 2 then (RuneError, 1)
               else if sz \<le> 3
                 then (push_bit 12 (uint (p0 AND 0x0F)) OR push_bit 6 (uint (p ! 1 AND 0x3F))
                         OR uint (p ! 2 AND 0x3F), 3)
               else if p ! 3 < 0x80 \<or> 0xBF < p ! 3 then (RuneError, 1)
               else (push_bit 18 (uint (p0 AND 0x07)) OR push_bit 12 (uint (p ! 1 AND 0x3F))
                       OR push_bit 6 (uint (p ! 2 AND 0x3F)) OR uint (p ! 3 AND 0x3F), 4)))"

section \<open>Key decoder: \<^verbatim>\<open>bytesToKey\<close>\<close>

definition keyCtrlC :: rune where "keyCtrlC = 3"
definition keyCtrlD :: rune where "keyCtrlD = 4"
definition keyCtrlU :: rune where "keyCtrlU = 21"
definition keyEnter :: rune where "keyEnter = 13"
definition keyEscape :: rune where "keyEscape = 27"
definition keyBackspace :: rune where "keyBackspace = 127"
definition keyUnknown :: rune where "keyUnknown = 0xd800 + 6"
definition keyUp :: rune where "keyUp = 0xd800 + 7"
definition keyDown :: rune where "keyDown = 0xd800 + 8"
definition keyLeft :: rune where "keyLeft = 0xd800 + 9"
definition keyRight :: rune where "keyRight = 0xd800 + 10"
definition keyAltLeft :: rune where "keyAltLeft = 0xd800 + 11"
definition keyAltRight :: rune where "keyAltRight = 0xd800 + 12"
definition keyHome :: rune where "keyHome = 0xd800 + 13"
definition keyDel :: rune where "keyDel = 0xd800 + 14"
definition keyEnd :: rune where "keyEnd = 0xd800 + 15"
definition keyDeleteWord :: rune where "keyDeleteWord = 0xd800 + 16"
definition keyDeleteLine :: rune where "keyDeleteLine = 0xd800 + 17"
definition keyClearScreen :: rune where "keyClearScreen = 0xd800 + 18"
definition keyPasteStart :: rune where "keyPasteStart = 0xd800 + 19"
definition keyPasteEnd :: rune where "keyPasteEnd = 0xd800 + 20"

lemmas key_defs =
  keyCtrlC_def keyCtrlD_def keyCtrlU_def keyEnter_def keyEscape_def keyBackspace_def
  keyUnknown_def keyUp_def keyDown_def keyLeft_def keyRight_def keyAltLeft_def
  keyAltRight_def keyHome_def keyDel_def keyEnd_def keyDeleteWord_def keyDeleteLine_def
  keyClearScreen_def keyPasteStart_def keyPasteEnd_def

definition pasteStart :: "byte list" where
  "pasteStart = [27, 0x5B, 0x32, 0x30, 0x30, 0x7E]"

definition pasteEnd :: "byte list" where
  "pasteEnd = [27, 0x5B, 0x32, 0x30, 0x31, 0x7E]"

text \<open>The slice expression \<^verbatim>\<open>b[n:]\<close>: it panics when \<open>n\<close> is beyond the length.\<close>

definition slice_from :: "byte list \<Rightarrow> nat \<Rightarrow> panic + byte list" where
  "slice_from b n = (if n \<le> length b then Inr (drop n b) else Inl SliceBoundsOutOfRange)"

definition ret :: "rune \<Rightarrow> panic + byte list \<Rightarrow> panic + (rune \<times> byte list)" where
  "ret k rest = (case rest of Inl e \<Rightarrow> Inl e | Inr r \<Rightarrow> Inr (k, r))"

text \<open>The first \<^verbatim>\<open>switch b[0]\<close>: the control characters.\<close>

definition ctrlKey :: "byte \<Rightarrow> rune option" where
  "ctrlKey c =
     (if c = 1 then Some keyHome
      else if c = 2 then Some keyLeft
      else if c = 5 then Some keyEnd
      else if c = 6 then Some keyRight
      else if c = 8 then Some keyBackspace
      else if c = 11 then Some keyDeleteLine
      else if c = 12 then Some keyClearScreen
      else if c = 23 then Some keyDeleteWord
      else if c = 14 then Some keyDown
      else if c = 16 then Some keyUp
      else None)"

text \<open>The \<^verbatim>\<open>switch b[2]\<close> after \<^verbatim>\<open>ESC [\<close>, entered when \<^verbatim>\<open>len(b) >= 3\<close>.\<close>

definition csiKey :: "byte list \<Rightarrow> (panic + (rune \<times> byte list)) option" where
  "csiKey b =
     (let c = b ! 2 in
      if c = 0x41 then Some (ret keyUp (slice_from b 3))
      else if c = 0x42 then Some (ret keyDown (slice_from b 3))
      else if c = 0x43 then Some (ret keyRight (slice_from b 3))
      else if c = 0x44 then Some (ret keyLeft (slice_from b 3))
      else if c = 0x48 then Some (ret keyHome (slice_from b 3))
      else if c = 0x46 then Some (ret keyEnd (slice_from b 3))
      else if c = 51 then Some (ret keyDel (slice_from b 4))
      else None)"

text \<open>The \<^verbatim>\<open>switch b[5]\<close> after \<^verbatim>\<open>ESC [ 1 ; 3\<close>, entered when \<^verbatim>\<open>len(b) >= 6\<close>.\<close>

definition altKey :: "byte list \<Rightarrow> (panic + (rune \<times> byte list)) option" where
  "altKey b =
     (let c = b ! 5 in
      if c = 0x43 then Some (ret keyAltRight (slice_from b 6))
      else if c = 0x44 then Some (ret keyAltLeft (slice_from b 6))
      else None)"

text \<open>The final loop: the bytes after the first of \<^verbatim>\<open>[a-zA-Z~]\<close>, if there is one.\<close>

definition isSeqEnd :: "byte \<Rightarrow> bool" where
  "isSeqEnd c \<longleftrightarrow> c \<ge> 0x61 \<and> c \<le> 0x7A \<or> c \<ge> 0x41 \<and> c \<le> 0x5A \<or> c = 0x7E"

fun afterSeqEnd :: "byte list \<Rightarrow> byte list option" where
  "afterSeqEnd [] = None"
| "afterSeqEnd (c # cs) = (if isSeqEnd c then Some cs else afterSeqEnd cs)"

definition bytesToKey :: "byte list \<Rightarrow> bool \<Rightarrow> panic + (rune \<times> byte list)" where
  "bytesToKey b pasteActive =
     (if length b = 0 then Inr (RuneError, [])
      else (case (if \<not> pasteActive then ctrlKey (b ! 0) else None) of
        Some k \<Rightarrow> ret k (slice_from b 1)
      | None \<Rightarrow>
        (if b ! 0 \<noteq> 27 then
          (if \<not> FullRune b then Inr (RuneError, b)
           else ret (fst (DecodeRune b)) (slice_from b (snd (DecodeRune b))))
        else (case (if \<not> pasteActive \<and> length b \<ge> 3 \<and> b ! 0 = 27 \<and> b ! 1 = 0x5B
                   then csiKey b else None) of
          Some r \<Rightarrow> r
        | None \<Rightarrow>
          (case (if \<not> pasteActive \<and> length b \<ge> 6 \<and> b ! 0 = 27 \<and> b ! 1 = 0x5B \<and>
                   b ! 2 = 0x31 \<and> b ! 3 = 0x3B \<and> b ! 4 = 0x33
                then altKey b else None) of
            Some r \<Rightarrow> r
          | None \<Rightarrow>
            (if \<not> pasteActive \<and> length b \<ge> 6 \<and> take 6 b = pasteStart
              then ret keyPasteStart (slice_from b 6)
            else if pasteActive \<and> length b \<ge> 6 \<and> take 6 b = pasteEnd
              then ret keyPasteEnd (slice_from b 6)
            else (case afterSeqEnd b of
                    Some rest \<Rightarrow> Inr (keyUnknown, rest)
                  | None \<Rightarrow> Inr (RuneError, b))))))))"

section \<open>User and session registry (\<^verbatim>\<open>internal/server/users\<close>)\<close>

text \<open>
  What the registry observes of an \<^verbatim>\<open>*ssh.ServerConn\<close>: the user name \<^verbatim>\<open>User()\<close>, the
  remote address \<^verbatim>\<open>RemoteAddr().String()\<close>, and \<^verbatim>\<open>Permissions.Extensions["privilege"]\<close>.
  The field \<^verbatim>\<open>Permissions\<close> is a pointer: \<open>None\<close> is the nil pointer, and \<open>Some s\<close> gives
  the looked-up extension (the empty string when the key is absent).
\<close>

record ServerConn =
  connUser :: gostring
  remoteAddr :: gostring
  privilegeExt :: "gostring option"

record Connection =
  serverConnection :: ServerConn
  ConnectionDetails :: gostring

record User =
  userConnections :: "gostring \<rightharpoonup> Connection"
  username :: gostring
  clients :: "gostring \<rightharpoonup> ServerConn"
  privilege :: "int option"

text \<open>
  The package-level maps. \<open>users\<close> and \<open>activeConnections\<close> are declared in
  \<^verbatim>\<open>users.go\<close>; \<open>allClients\<close> and \<open>aliases\<close> are used there and declared elsewhere in the
  package: \<open>allClients\<close> maps a controllee ID to its connection, and \<open>aliases\<close> maps an
  alias to the set of controllee IDs that carry it (the keys of the inner Go map, kept
  here as a list whose order stands for the iteration order of the map). The maps hold
  pointers to the user records, so a write through such a pointer is an update of the
  entry of the map.
\<close>

record Registry =
  users :: "gostring \<rightharpoonup> User"
  activeConnections :: "gostring \<rightharpoonup> bool"
  allClients :: "gostring \<rightharpoonup> ServerConn"
  aliases :: "gostring \<rightharpoonup> gostring list"

definition emptyRegistry :: Registry where
  "emptyRegistry = \<lparr>users = Map.empty, activeConnections = Map.empty,
                     allClients = Map.empty, aliases = Map.empty\<rparr>"

datatype users_error =
    DuplicateSession gostring
  | NotFound gostring
  | Ambiguous nat gostring "gostring list"
  | Panicked panic

definition UserPermissions :: int where "UserPermissions = 0"
definition AdminPermissions :: int where "AdminPermissions = 5"

text \<open>
  \<^verbatim>\<open>strconv.Atoi\<close> of the Go library: an optional sign and at least one decimal digit,
  and a value that fits a 64-bit \<^verbatim>\<open>int\<close>; anything else is an error.
\<close>

definition isDigit :: "byte \<Rightarrow> bool" where
  "isDigit c \<longleftrightarrow> 0x30 \<le> c \<and> c \<le> 0x39"

fun digitsValue :: "int \<Rightarrow> byte list \<Rightarrow> int" where
  "digitsValue acc [] = acc"
| "digitsValue acc (c # cs) = digitsValue (acc * 10 + (uint c - 0x30)) cs"

definition Atoi :: "gostring \<Rightarrow> int option" where
  "Atoi s =
     (case s of
        [] \<Rightarrow> None
      | c # cs \<Rightarrow>
          (let neg = (c = 0x2D);
               ds = (if c = 0x2D \<or> c = 0x2B then cs else s)
           in if ds = [] \<or> \<not> list_all isDigit ds then None
              else (let v = (if neg then - digitsValue 0 ds else digitsValue 0 ds)
                    in if - (2 ^ 63) \<le> v \<and> v < 2 ^ 63 then Some v else None)))"

definition Privilege :: "User \<Rightarrow> int" where
  "Privilege u = (case privilege u of None \<Rightarrow> 0 | Some p \<Rightarrow> p)"

text \<open>\<^verbatim>\<open>fmt.Sprintf("%s@%s", User(), RemoteAddr().String())\<close>\<close>

definition makeConnectionDetailsString :: "ServerConn \<Rightarrow> gostring" where
  "makeConnectionDetailsString sc = connUser sc @ [0x40] @ remoteAddr sc"

definition newUser :: "gostring \<Rightarrow> User" where
  "newUser name = \<lparr>userConnections = Map.empty, username = name,
                    clients = Map.empty, privilege = None\<rparr>"

text \<open>
  \<^verbatim>\<open>_createOrGetUser\<close>, which \<^verbatim>\<open>CreateOrGetUser\<close> calls under the lock. The result is the
  returned triple (an error, or the user record and the connection details) and the
  registry after the call. The record is entered in the map, and its privilege is set,
  before the check for a duplicate session.
\<close>

definition createOrGetUser ::
  "Registry \<Rightarrow> gostring \<Rightarrow> ServerConn option \<Rightarrow> (users_error + (User \<times> gostring)) \<times> Registry" where
  "createOrGetUser reg name conn =
     (let (u, reg1) = (case users reg name of
                         None \<Rightarrow> (newUser name, reg\<lparr>users := (users reg)(name \<mapsto> newUser name)\<rparr>)
                       | Some u \<Rightarrow> (u, reg))
      in case conn of
           None \<Rightarrow> (Inr (u, []), reg1)
         | Some sc \<Rightarrow>
             (let details = makeConnectionDetailsString sc;
                  newConnection = \<lparr>serverConnection = sc, ConnectionDetails = details\<rparr>
              in case privilegeExt sc of
                   None \<Rightarrow> (Inl (Panicked NilDereference), reg1)
                 | Some ext \<Rightarrow>
                     (let u1 = (case Atoi ext of None \<Rightarrow> u | Some priv \<Rightarrow> u\<lparr>privilege := Some priv\<rparr>);
                          reg2 = reg1\<lparr>users := (users reg1)(name \<mapsto> u1)\<rparr>
                      in if details \<in> dom (userConnections u1)
                         then (Inl (DuplicateSession details), reg2)
                         else (let u2 = u1\<lparr>userConnections := (userConnections u1)(details \<mapsto> newConnection)\<rparr>
                               in (Inr (u2, details),
                                   reg2\<lparr>users := (users reg2)(name \<mapsto> u2),
                                        activeConnections := (activeConnections reg2)(details \<mapsto> True)\<rparr>)))))"

text \<open>
  \<^verbatim>\<open>DisconnectUser\<close>. Closing the connection (\<^verbatim>\<open>defer ServerConnection.Close()\<close>) acts on
  the connection, not on the registry, and is not part of the result.
\<close>

definition DisconnectUser :: "Registry \<Rightarrow> ServerConn option \<Rightarrow> Registry" where
  "DisconnectUser reg conn =
     (case conn of
        None \<Rightarrow> reg
      | Some sc \<Rightarrow>
          (let details = makeConnectionDetailsString sc
           in case users reg (connUser sc) of
                None \<Rightarrow> reg
              | Some user \<Rightarrow>
                  (let user1 = user\<lparr>userConnections := (userConnections user)(details := None)\<rparr>;
                       reg1 = reg\<lparr>users := (users reg)(connUser sc \<mapsto> user1),
                                  activeConnections := (activeConnections reg)(details := None)\<rparr>
                   in if clients user1 = Map.empty
                      then reg1\<lparr>users := (users reg1)(username user1 := None)\<rparr>
                      else reg1)))"

text \<open>
  \<^verbatim>\<open>User.GetClient\<close>. The inner map \<^verbatim>\<open>aliases[identifier]\<close> is a reference: the deletions
  \<^verbatim>\<open>delete(matchingUniqueIDs, id)\<close> are deletions in the global map, so the call returns
  the registry too. A connection looked up in \<open>searchClients\<close> may be the nil pointer
  (\<open>None\<close>); the single match returns it as it is, and the loop that formats the
  ambiguous matches dereferences it.
\<close>

definition GetClient ::
  "Registry \<Rightarrow> User \<Rightarrow> gostring \<Rightarrow> (users_error + ServerConn option) \<times> Registry" where
  "GetClient reg u identifier =
     (case allClients reg identifier of
        Some m \<Rightarrow> (Inr (Some m), reg)
      | None \<Rightarrow>
          (let searchClients = (if Privilege u = AdminPermissions then allClients reg else clients u)
           in case aliases reg identifier of
                None \<Rightarrow> (Inl (NotFound identifier), reg)
              | Some matchingUniqueIDs \<Rightarrow>
                  (let ids = (if Privilege u \<noteq> AdminPermissions
                              then filter (\<lambda>id. id \<in> dom (clients u)) matchingUniqueIDs
                              else matchingUniqueIDs);
                       reg' = reg\<lparr>aliases := (aliases reg)(identifier \<mapsto> ids)\<rparr>
                   in if length ids = 1 then (Inr (searchClients (hd ids)), reg')
                      else if \<exists>k \<in> set ids. searchClients k = None
                        then (Inl (Panicked NilDereference), reg')
                      else (Inl (Ambiguous (length ids) identifier ids), reg'))))"

text \<open>The key of every record of the user map is the record's own name.\<close>

definition registry_keys_ok :: "Registry \<Rightarrow> bool" where
  "registry_keys_ok reg \<longleftrightarrow> (\<forall>k u. users reg k = Some u \<longrightarrow> username u = k)"

subsection \<open>A scenario: two operator sessions of one user, and two controllees\<close>

definition alice1 :: ServerConn where
  "alice1 = \<lparr>connUser = str ''alice'', remoteAddr = str ''1.2.3.4:1000'',
              privilegeExt = Some (str ''0'')\<rparr>"

definition alice2 :: ServerConn where
  "alice2 = \<lparr>connUser = str ''alice'', remoteAddr = str ''1.2.3.4:2000'',
              privilegeExt = Some (str ''0'')\<rparr>"

definition oneSession :: Registry where
  "oneSession = snd (createOrGetUser emptyRegistry (str ''alice'') (Some alice1))"

definition twoSessions :: Registry where
  "twoSessions = snd (createOrGetUser oneSession (str ''alice'') (Some alice2))"

definition clientX :: ServerConn where
  "clientX = \<lparr>connUser = str ''x'', remoteAddr = str ''10.0.0.1:22'', privilegeExt = None\<rparr>"

definition clientY :: ServerConn where
  "clientY = \<lparr>connUser = str ''y'', remoteAddr = str ''10.0.0.2:22'', privilegeExt = None\<rparr>"

definition ownerOfX :: User where
  "ownerOfX = \<lparr>userConnections = Map.empty, username = str ''alice'',
                clients = [str ''X'' \<mapsto> clientX], privilege = Some 0\<rparr>"

definition admin :: User where
  "admin = \<lparr>userConnections = Map.empty, username = str ''root'',
             clients = Map.empty, privilege = Some 5\<rparr>"

definition sharedAlias :: Registry where
  "sharedAlias = \<lparr>users = [str ''alice'' \<mapsto> ownerOfX, str ''root'' \<mapsto> admin],
                   activeConnections = Map.empty,
                   allClients = [str ''X'' \<mapsto> clientX, str ''Y'' \<mapsto> clientY],
                   aliases = [str ''web'' \<mapsto> [str ''X'', str ''Y'']]\<rparr>"

section \<open>Strings (Go's \<^verbatim>\<open>string\<close> conversions, \<^verbatim>\<open>strconv\<close>, \<^verbatim>\<open>strings\<close>, \<^verbatim>\<open>sort\<close>)\<close>

text \<open>
  \<^verbatim>\<open>string(r)\<close> for a rune: its UTF-8 encoding, and the encoding of U+FFFD for a rune that
  is no valid code point (negative, beyond U+10FFFF, or a surrogate).
\<close>

definition EncodeRune :: "rune \<Rightarrow> byte list" where
  "EncodeRune r =
     (if r < 0 \<or> r > 0x10FFFF \<or> (0xD800 \<le> r \<and> r \<le> 0xDFFF) then [0xEF, 0xBF, 0xBD]
      else if r \<le> 0x7F then [of_int r]
      else if r \<le> 0x7FF then [0xC0 OR of_int (drop_bit 6 r), 0x80 OR (of_int r AND 0x3F)]
      else if r \<le> 0xFFFF then
        [0xE0 OR of_int (drop_bit 12 r), 0x80 OR (of_int (drop_bit 6 r) AND 0x3F),
         0x80 OR (of_int r AND 0x3F)]
      else
        [0xF0 OR of_int (drop_bit 18 r), 0x80 OR (of_int (drop_bit 12 r) AND 0x3F),
         0x80 OR (of_int (drop_bit 6 r) AND 0x3F), 0x80 OR (of_int r AND 0x3F)])"

text \<open>\<^verbatim>\<open>string(rs)\<close> for a slice of runes.\<close>

definition encode :: "rune list \<Rightarrow> gostring" where
  "encode rs = concat (map EncodeRune rs)"

text \<open>
  \<^verbatim>\<open>[]rune(s)\<close>: the string decoded rune by rune, a byte that starts no valid encoding
  giving U+FFFD. A non-empty input always decodes with a width of at least one.
\<close>

fun runes :: "gostring \<Rightarrow> rune list" where
  "runes [] = []"
| "runes (b # bs) = fst (DecodeRune (b # bs)) # runes (drop (snd (DecodeRune (b # bs)) - 1) bs)"

definition RuneCount :: "byte list \<Rightarrow> nat" where
  "RuneCount p = length (runes p)"

text \<open>\<^verbatim>\<open>strconv.Itoa\<close>, as runes.\<close>

fun digits :: "nat \<Rightarrow> rune list" where
  "digits n = (if n < 10 then [0x30 + int n] else digits (n div 10) @ [0x30 + int (n mod 10)])"

declare digits.simps [simp del]

definition Itoa :: "int \<Rightarrow> rune list" where
  "Itoa n = (if n < 0 then 0x2D # digits (nat (- n)) else digits (nat n))"

text \<open>\<^verbatim>\<open>unicode.IsSpace\<close>.\<close>

definition IsSpace :: "rune \<Rightarrow> bool" where
  "IsSpace r \<longleftrightarrow>
     r = 0x09 \<or> r = 0x0A \<or> r = 0x0B \<or> r = 0x0C \<or> r = 0x0D \<or> r = 0x20 \<or> r = 0x85 \<or> r = 0xA0 \<or>
     r = 0x1680 \<or> (0x2000 \<le> r \<and> r \<le> 0x200A) \<or> r = 0x2028 \<or> r = 0x2029 \<or> r = 0x202F \<or>
     r = 0x205F \<or> r = 0x3000"

text \<open>
  \<^verbatim>\<open>utf8.DecodeLastRune\<close>: the last rune of a string and its width. The library walks
  back from the last byte, over at most three more bytes, to a byte that can start an
  encoding, decodes from there, and answers U+FFFD of width one unless that decoding ends
  exactly at the end of the string.
\<close>

definition RuneStart :: "byte \<Rightarrow> bool" where
  "RuneStart b \<longleftrightarrow> b AND 0xC0 \<noteq> 0x80"

definition DecodeLastRune :: "byte list \<Rightarrow> rune \<times> nat" where
  "DecodeLastRune p =
     (if p = [] then (RuneError, 0)
      else if uint (last p) < 0x80 then (uint (last p), 1)
      else (let lim = length p - 4;
                start = (case find (\<lambda>i. RuneStart (p ! i)) (rev [lim ..< length p - 1]) of
                           Some i \<Rightarrow> i
                         | None \<Rightarrow> lim - 1);
                (r, sz) = DecodeRune (drop start p)
            in if start + sz \<noteq> length p then (RuneError, 1) else (r, sz)))"

text \<open>
  \<^verbatim>\<open>strings.TrimSpace\<close>: the leading runes that are white space are cut, decoding forwards,
  then the trailing ones, decoding backwards.
\<close>

function trimLeft :: "gostring \<Rightarrow> gostring" where
  "trimLeft s =
     (if s = [] then []
      else if IsSpace (fst (DecodeRune s)) then trimLeft (drop (snd (DecodeRune s)) s)
      else s)"
  by pat_completeness auto

function trimRight :: "gostring \<Rightarrow> gostring" where
  "trimRight s =
     (if s = [] then []
      else if IsSpace (fst (DecodeLastRune s))
        then trimRight (take (length s - snd (DecodeLastRune s)) s)
      else s)"
  by pat_completeness auto

lemma DecodeRune_width: "p \<noteq> [] \<Longrightarrow> 1 \<le> snd (DecodeRune p)"
  by (cases p) (auto simp: DecodeRune_def split: first_info.splits)

lemma DecodeLastRune_width: "p \<noteq> [] \<Longrightarrow> 1 \<le> snd (DecodeLastRune p)"
proof -
  assume ne: "p \<noteq> []"
  show ?thesis
  proof (cases "uint (last p) < 0x80")
    case True
    with ne show ?thesis by (simp add: DecodeLastRune_def)
  next
    case False
    define start where "start = (case find (\<lambda>i. RuneStart (p ! i)) (rev [length p - 4 ..< length p - 1]) of
                           Some i \<Rightarrow> i | None \<Rightarrow> length p - 4 - 1)"
    have "start < length p"
    proof (cases "find (\<lambda>i. RuneStart (p ! i)) (rev [length p - 4 ..< length p - 1])")
      case None
      with ne show ?thesis by (simp add: start_def) 
    next
      case (Some i)
      then have "i \<in> set (rev [length p - 4 ..< length p - 1])"
        by (metis find_Some_iff nth_mem)
      then have "i < length p" by auto
      then show ?thesis using Some by (simp add: start_def)
    qed
    then have "start + snd (DecodeRune (drop start p)) = length p \<Longrightarrow>
               1 \<le> snd (DecodeRune (drop start p))" by linarith
    then show ?thesis
      using ne False by (auto simp: DecodeLastRune_def Let_def start_def split: prod.splits)
  qed
qed

termination trimLeft
  by (relation "measure length") (use DecodeRune_width in \<open>auto simp: Suc_le_eq\<close>)

termination trimRight
proof (relation "measure length")
  show "wf (measure length)" by simp
next
  fix s :: gostring
  assume "s \<noteq> []"
  then show "(take (length s - snd (DecodeLastRune s)) s, s) \<in> measure length"
    using DecodeLastRune_width [of s] by (cases s) auto
qed

declare trimLeft.simps [simp del] trimRight.simps [simp del]

definition TrimSpace :: "gostring \<Rightarrow> gostring" where
  "TrimSpace s = trimRight (trimLeft s)"

text \<open>\<^verbatim>\<open>sort.Strings\<close>: ascending in the byte-wise order of Go strings.\<close>

fun string_le :: "gostring \<Rightarrow> gostring \<Rightarrow> bool" where
  "string_le [] _ = True"
| "string_le (x # xs) [] = False"
| "string_le (x # xs) (y # ys) = (x < y \<or> x = y \<and> string_le xs ys)"

fun insertString :: "gostring \<Rightarrow> gostring list \<Rightarrow> gostring list" where
  "insertString s [] = [s]"
| "insertString s (x # xs) = (if string_le s x then s # x # xs else x # insertString s xs)"

definition sortStrings :: "gostring list \<Rightarrow> gostring list" where
  "sortStrings xs = foldr insertString xs []"

section \<open>Collaborators of the editor that are outside \<^verbatim>\<open>src/\<close>\<close>

text \<open>
  The line parser (\<^verbatim>\<open>ParseLine\<close>, with its nodes \<^verbatim>\<open>Cmd\<close>, \<^verbatim>\<open>Argument\<close>, \<^verbatim>\<open>Flag\<close>) and the
  prefix index (\<^verbatim>\<open>pkg/trie\<close>) are not among the sources. The editor reads of a node its
  type, value and byte offsets, and of a parsed line the command, the focus, the section
  and the names of the flags.
\<close>

datatype node_type = CmdType | ArgumentType | FlagType

record Node =
  Type :: node_type
  Value :: gostring
  Start :: nat
  End :: nat

record ParsedLine =
  Command :: "Node option"
  Focus :: "Node option"
  Section :: "Node option"
  Flags :: "gostring list"

datatype go_error = ErrCtrlD | ErrPasteIndicator | io_EOF | OtherError gostring

text \<open>\<^verbatim>\<open>err.Error()\<close>\<close>

fun Error :: "go_error \<Rightarrow> gostring" where
  "Error ErrCtrlD = str ''ctrl + D''"
| "Error ErrPasteIndicator = str ''terminal: ErrPasteIndicator not correctly handled''"
| "Error io_EOF = str ''EOF''"
| "Error (OtherError s) = s"

text \<open>
  A command, as the dispatcher and the completion see it. What a handler does with the
  session is opaque: \<open>RunCommand\<close> gives the text the handler writes to the terminal and
  the error it returns.
\<close>

record Command =
  Expect :: "ParsedLine \<Rightarrow> gostring list option"
  RunCommand :: "ParsedLine \<Rightarrow> gostring \<times> go_error option"
  Help :: "bool \<Rightarrow> gostring"
  ValidArgs :: "gostring \<rightharpoonup> gostring"

text \<open>
  The functions the editor calls and whose code is not in \<^verbatim>\<open>src/\<close>: the parser of the
  repository, and the quoting of \<^verbatim>\<open>fmt\<close>'s verb \<^verbatim>\<open>%q\<close>. They are parameters of the model.
\<close>

record externals =
  ParseLine :: "gostring \<Rightarrow> nat \<Rightarrow> ParsedLine"
  Quote :: "gostring \<Rightarrow> gostring"

text \<open>
  Modelled from the spec: the prefix index \<^verbatim>\<open>trie.Trie\<close> (package \<^verbatim>\<open>pkg/trie\<close> is missing).
  It is insert-only; \<^verbatim>\<open>Add(s)\<close> registers a string, and \<^verbatim>\<open>PrefixMatch(p)\<close> returns all
  registered strings that start with \<open>p\<close>, in no required order (the caller sorts).
\<close>

type_synonym Trie = "gostring list"

definition NewTrie :: Trie where
  "NewTrie = []"

definition trieAdd :: "Trie \<Rightarrow> gostring \<Rightarrow> Trie" where
  "trieAdd t s = List.insert s t"

definition hasPrefix :: "gostring \<Rightarrow> gostring \<Rightarrow> bool" where
  "hasPrefix s p \<longleftrightarrow> take (length p) s = p"

definition PrefixMatch :: "Trie \<Rightarrow> gostring \<Rightarrow> gostring list" where
  "PrefixMatch t p = filter (\<lambda>s. hasPrefix s p) t"

section \<open>The editor: \<^verbatim>\<open>Terminal\<close>\<close>

text \<open>
  The field \<^verbatim>\<open>AutoCompleteCallback\<close> is nil (\<^verbatim>\<open>NewTerminal\<close>) or \<^verbatim>\<open>defaultAutoComplete\<close>
  (\<^verbatim>\<open>NewAdvancedTerminal\<close>). The tries registered for a tag are pointers; the one to the
  terminal's own \<^verbatim>\<open>functionsAutoComplete\<close> is kept as a reference.
\<close>

datatype callback = NoCallback | DefaultAutoComplete

datatype trie_ref = FunctionsTrie | ValueTrie Trie

text \<open>
  The state of a terminal. \<open>remainder\<close> is the content of the slice of that name, which
  aliases the start of the 256-byte array \<^verbatim>\<open>inBuf\<close>. \<open>written\<close> is everything written so
  far to the channel \<^verbatim>\<open>c\<close>, whose writes are taken to succeed. \<open>rawOverflow\<close> is \<open>None\<close>
  for the nil channel, and otherwise the content of the one-element channel. The fields
  for the session, the user, the lock and the cancellation channel are left out.
\<close>

record Terminal =
  AutoCompleteCallback :: callback
  prompt :: "rune list"
  line :: "rune list"
  pos :: nat
  echo :: bool
  pasteActive :: bool
  cursorX :: int
  cursorY :: int
  maxLine :: int
  termWidth :: int
  termHeight :: int
  outBuf :: "byte list"
  remainder :: "byte list"
  history :: stRingBuffer
  historyIndex :: int
  historyPending :: gostring
  autoCompleteIndex :: nat
  autoCompletePos :: nat
  autoCompletePendng :: gostring
  autoCompleting :: bool
  functions' :: "gostring \<rightharpoonup> Command"
  functionsAutoComplete :: Trie
  autoCompleteValues :: "gostring \<rightharpoonup> trie_ref list"
  raw :: bool
  rawOverflow :: "byte list option option"
  written :: "byte list"

definition NewTerminal :: "rune list \<Rightarrow> Terminal" where
  "NewTerminal p =
     \<lparr>AutoCompleteCallback = NoCallback, prompt = p, line = [], pos = 0, echo = True,
      pasteActive = False, cursorX = 0, cursorY = 0, maxLine = 0, termWidth = 80,
      termHeight = 24, outBuf = [], remainder = [], history = emptyRing, historyIndex = - 1,
      historyPending = [], autoCompleteIndex = 0, autoCompletePos = 0,
      autoCompletePendng = [], autoCompleting = False, functions' = Map.empty,
      functionsAutoComplete = NewTrie, autoCompleteValues = Map.empty, raw = False,
      rawOverflow = None, written = []\<rparr>"

text \<open>
  \<^verbatim>\<open>NewAdvancedTerminal\<close>; \<open>tag\<close> is the constant \<^verbatim>\<open>autocomplete.Functions\<close> of a package
  outside \<^verbatim>\<open>src/\<close>.
\<close>

definition NewAdvancedTerminal :: "gostring \<Rightarrow> rune list \<Rightarrow> Terminal" where
  "NewAdvancedTerminal tag p =
     (NewTerminal p)\<lparr>AutoCompleteCallback := DefaultAutoComplete,
                     autoCompleteValues := [tag \<mapsto> [FunctionsTrie]]\<rparr>"

text \<open>\<^verbatim>\<open>AddCommands\<close>: the map is stored, and its keys are added to the trie.\<close>

definition AddCommands :: "Terminal \<Rightarrow> (gostring \<times> Command) list \<Rightarrow> Terminal" where
  "AddCommands t m =
     t\<lparr>functions' := map_of m,
       functionsAutoComplete := foldl trieAdd (functionsAutoComplete t) (map fst m)\<rparr>"

definition queue :: "Terminal \<Rightarrow> rune list \<Rightarrow> Terminal" where
  "queue t data = t\<lparr>outBuf := outBuf t @ encode data\<rparr>"

definition space :: "rune list" where
  "space = [0x20]"

definition isPrintable :: "rune \<Rightarrow> bool" where
  "isPrintable key \<longleftrightarrow> key \<ge> 32 \<and> \<not> (key \<ge> 0xd800 \<and> key \<le> 0xdbff)"

text \<open>\<^verbatim>\<open>visualLength\<close>: the runes outside escape sequences.\<close>

fun visualLengthFrom :: "bool \<Rightarrow> int \<Rightarrow> rune list \<Rightarrow> int" where
  "visualLengthFrom inEscapeSeq n [] = n"
| "visualLengthFrom inEscapeSeq n (r # rs) =
     (if inEscapeSeq
      then visualLengthFrom (\<not> ((r \<ge> 0x61 \<and> r \<le> 0x7A) \<or> (r \<ge> 0x41 \<and> r \<le> 0x5A))) n rs
      else if r = 0x1B then visualLengthFrom True n rs
      else visualLengthFrom False (n + 1) rs)"

definition visualLength :: "rune list \<Rightarrow> int" where
  "visualLength rs = visualLengthFrom False 0 rs"

text \<open>\<^verbatim>\<open>move\<close>: one sequence \<^verbatim>\<open>ESC [ n X\<close> for each direction with a positive count.\<close>

definition moveSeq :: "int \<Rightarrow> rune \<Rightarrow> rune list" where
  "moveSeq n c =
     (if n = 1 then [27, 0x5B, c]
      else if n > 1 then [27, 0x5B] @ Itoa n @ [c]
      else [])"

definition move :: "Terminal \<Rightarrow> int \<Rightarrow> int \<Rightarrow> int \<Rightarrow> int \<Rightarrow> Terminal" where
  "move t up down left right =
     queue t (moveSeq up 0x41 @ moveSeq down 0x42 @ moveSeq right 0x43 @ moveSeq left 0x44)"

text \<open>
  From here on a function that can panic in Go returns an option, \<open>None\<close> being the
  panic: a division by a zero width, a slice or an index out of range.
\<close>

definition moveCursorToPos :: "Terminal \<Rightarrow> nat \<Rightarrow> Terminal option" where
  "moveCursorToPos t p =
     (if \<not> echo t then Some t
      else if termWidth t = 0 then None
      else (let x0 = visualLength (prompt t) + int p;
                y = x0 sdiv termWidth t;
                x = x0 smod termWidth t;
                up = (if y < cursorY t then cursorY t - y else 0);
                down = (if y > cursorY t then y - cursorY t else 0);
                left = (if x < cursorX t then cursorX t - x else 0);
                right = (if x > cursorX t then x - cursorX t else 0)
            in Some (move (t\<lparr>cursorX := x, cursorY := y\<rparr>) up down left right)))"

definition clearLineToRight :: "Terminal \<Rightarrow> Terminal" where
  "clearLineToRight t = queue t [27, 0x5B, 0x4B]"

definition maxLineLength :: nat where
  "maxLineLength = 4096"

definition advanceCursor :: "Terminal \<Rightarrow> int \<Rightarrow> Terminal option" where
  "advanceCursor t places =
     (if termWidth t = 0 then None
      else (let cx = cursorX t + places;
                cy = cursorY t + cx sdiv termWidth t;
                t1 = t\<lparr>cursorX := cx smod termWidth t, cursorY := cy,
                       maxLine := (if cy > maxLine t then cy else maxLine t)\<rparr>
            in Some (if places > 0 \<and> cursorX t1 = 0
                     then t1\<lparr>outBuf := outBuf t1 @ [0x0D, 0x0A]\<rparr> else t1)))"

text \<open>
  \<^verbatim>\<open>writeLine\<close>. An iteration with no room left on the row (\<^verbatim>\<open>todo = 0\<close>) queues nothing
  and only wraps the cursor; it is the first step below. With less than no room
  \<^verbatim>\<open>line[:todo]\<close> panics.
\<close>

function writeLine :: "Terminal \<Rightarrow> rune list \<Rightarrow> Terminal option" where
  "writeLine t l =
     (if l = [] then Some t
      else (case (if termWidth t - cursorX t = 0 then advanceCursor t 0 else Some t) of
              None \<Rightarrow> None
            | Some t0 \<Rightarrow>
                (let remainingOnLine = termWidth t0 - cursorX t0;
                     todo = (if int (length l) > remainingOnLine
                             then nat remainingOnLine else length l)
                 in if remainingOnLine \<le> 0 then None
                    else (case advanceCursor (queue t0 (take todo l)) (visualLength (take todo l)) of
                            None \<Rightarrow> None
                          | Some t1 \<Rightarrow> writeLine t1 (drop todo l)))))"
  by pat_completeness auto
termination
  by (relation "measure (\<lambda>(t, l). length l)") auto

declare writeLine.simps [simp del]

fun writeSpaces :: "nat \<Rightarrow> Terminal \<Rightarrow> Terminal option" where
  "writeSpaces 0 t = Some t"
| "writeSpaces (Suc n) t = (case writeLine t space of None \<Rightarrow> None | Some t' \<Rightarrow> writeSpaces n t')"

definition setLine :: "Terminal \<Rightarrow> rune list \<Rightarrow> nat \<Rightarrow> Terminal option" where
  "setLine t newLine newPos =
     (if echo t
      then do {
        t1 \<leftarrow> moveCursorToPos t 0;
        t2 \<leftarrow> writeLine t1 newLine;
        t3 \<leftarrow> writeSpaces (length (line t2) - length newLine) t2;
        t4 \<leftarrow> moveCursorToPos t3 newPos;
        Some (t4\<lparr>line := newLine, pos := newPos\<rparr>)
      }
      else Some (t\<lparr>line := newLine, pos := newPos\<rparr>))"

definition eraseNPreviousChars :: "Terminal \<Rightarrow> nat \<Rightarrow> Terminal option" where
  "eraseNPreviousChars t n0 =
     (if n0 = 0 then Some t
      else (let n = (if pos t < n0 then pos t else n0) in do {
        t1 \<leftarrow> moveCursorToPos (t\<lparr>pos := pos t - n\<rparr>) (pos t - n);
        t2 \<leftarrow> (if n + pos t1 \<le> length (line t1)
               then Some (t1\<lparr>line := take (pos t1) (line t1) @ drop (n + pos t1) (line t1)\<rparr>)
               else None);
        if echo t2
        then do {
          t3 \<leftarrow> writeLine t2 (drop (pos t2) (line t2));
          t4 \<leftarrow> advanceCursor (queue t3 (replicate n 0x20)) (int n);
          moveCursorToPos t4 (pos t4)
        }
        else Some t2
      }))"

text \<open>\<^verbatim>\<open>countToLeftWord\<close>: its two loops walk down from \<^verbatim>\<open>t.pos - 1\<close>.\<close>

fun skipSpacesLeft :: "rune list \<Rightarrow> nat \<Rightarrow> nat" where
  "skipSpacesLeft l 0 = 0"
| "skipSpacesLeft l (Suc p) = (if l ! Suc p \<noteq> 0x20 then Suc p else skipSpacesLeft l p)"

fun wordStartLeft :: "rune list \<Rightarrow> nat \<Rightarrow> nat" where
  "wordStartLeft l 0 = 0"
| "wordStartLeft l (Suc p) = (if l ! Suc p = 0x20 then Suc (Suc p) else wordStartLeft l p)"

definition countToLeftWord :: "Terminal \<Rightarrow> nat option" where
  "countToLeftWord t =
     (if pos t = 0 then Some 0
      else if pos t > length (line t) then None
      else Some (pos t - wordStartLeft (line t) (skipSpacesLeft (line t) (pos t - 1))))"

text \<open>\<^verbatim>\<open>countToRightWord\<close>: its two loops walk up from \<^verbatim>\<open>t.pos\<close>.\<close>

function scanRight :: "(rune \<Rightarrow> bool) \<Rightarrow> rune list \<Rightarrow> nat \<Rightarrow> nat" where
  "scanRight stop l p =
     (if p < length l then (if stop (l ! p) then p else scanRight stop l (Suc p)) else p)"
  by pat_completeness auto
termination
  by (relation "measure (\<lambda>(stop, l, p). length l - p)") auto

declare scanRight.simps [simp del]

definition countToRightWord :: "Terminal \<Rightarrow> nat" where
  "countToRightWord t =
     scanRight (\<lambda>r. r \<noteq> 0x20) (line t) (scanRight (\<lambda>r. r = 0x20) (line t) (pos t)) - pos t"

definition resetAutoComplete :: "Terminal \<Rightarrow> Terminal" where
  "resetAutoComplete t =
     t\<lparr>autoCompleteIndex := 0, autoCompletePendng := [], autoCompleting := False,
       autoCompletePos := 0\<rparr>"

definition startAutoComplete :: "Terminal \<Rightarrow> gostring \<Rightarrow> nat \<Rightarrow> Terminal" where
  "startAutoComplete t lineFragment p =
     t\<lparr>autoCompleteIndex := 0, autoCompletePendng := lineFragment, autoCompleting := True,
       autoCompletePos := p\<rparr>"

text \<open>\<^verbatim>\<open>addKeyToLine\<close>; growing the capacity of the slice does not show in its content.\<close>

definition addKeyToLine :: "Terminal \<Rightarrow> rune \<Rightarrow> Terminal option" where
  "addKeyToLine t key =
     (if pos t > length (line t) then None
      else do {
        let t1 = t\<lparr>line := take (pos t) (line t) @ [key] @ drop (pos t) (line t)\<rparr>;
        t2 \<leftarrow> (if echo t1 then writeLine t1 (drop (pos t1) (line t1)) else Some t1);
        moveCursorToPos (t2\<lparr>pos := pos t2 + 1\<rparr>) (pos t2 + 1)
      })"


text \<open>
  \<^verbatim>\<open>buildDisplayLine\<close>. The case for \<^verbatim>\<open>Cmd\<close> is empty (a Go \<^verbatim>\<open>case\<close> does not fall
  through), so the output starts with the match. The byte offsets index the string, and
  a slice out of range panics.
\<close>

definition sliceTo :: "gostring \<Rightarrow> nat \<Rightarrow> gostring option" where
  "sliceTo s n = (if n \<le> length s then Some (take n s) else None)"

definition sliceFrom :: "gostring \<Rightarrow> nat \<Rightarrow> gostring option" where
  "sliceFrom s n = (if n \<le> length s then Some (drop n s) else None)"

definition buildDisplayLine ::
  "Node option \<Rightarrow> gostring \<Rightarrow> gostring \<Rightarrow> nat \<Rightarrow> (gostring \<times> nat) option" where
  "buildDisplayLine focus l match currentPos =
     (case focus of
        None \<Rightarrow> do {
          before \<leftarrow> sliceTo l currentPos;
          after \<leftarrow> sliceFrom l currentPos;
          Some (before @ match @ after, length (before @ match))
        }
      | Some f \<Rightarrow> do {
          output \<leftarrow> (case Type f of
                       CmdType \<Rightarrow> Some []
                     | ArgumentType \<Rightarrow> sliceTo l (Start f)
                     | FlagType \<Rightarrow> map_option (\<lambda>s. s @ [0x20]) (sliceTo l (End f)));
          after \<leftarrow> sliceFrom l (End f);
          Some (output @ match @ after, length (output @ match))
        })"

definition derefTrie :: "Terminal \<Rightarrow> trie_ref \<Rightarrow> Trie" where
  "derefTrie t r = (case r of FunctionsTrie \<Rightarrow> functionsAutoComplete t | ValueTrie tr \<Rightarrow> tr)"

text \<open>The candidates that \<^verbatim>\<open>defaultAutoComplete\<close> collects before sorting them.\<close>

definition expectedMatches :: "Terminal \<Rightarrow> ParsedLine \<Rightarrow> Node \<Rightarrow> gostring list" where
  "expectedMatches t parsedLine cmd =
     (case functions' t (Value cmd) of
        None \<Rightarrow> []
      | Some function \<Rightarrow>
          (case Expect function parsedLine of
             None \<Rightarrow> []
           | Some expected \<Rightarrow>
               (if length expected = 1 \<and> length (expected ! 0) > 1 \<and>
                   hd (expected ! 0) = 0x3C \<and> last (expected ! 0) = 0x3E
                then (case autoCompleteValues t (expected ! 0) of
                        None \<Rightarrow> expected
                      | Some tries \<Rightarrow>
                          (let searchString =
                                 (case Focus parsedLine of
                                    None \<Rightarrow> []
                                  | Some f \<Rightarrow>
                                      (case Section parsedLine of
                                         None \<Rightarrow> Value f
                                       | Some s \<Rightarrow> if Start f \<noteq> Start s then Value f else []))
                           in concat (map (\<lambda>tr. PrefixMatch (derefTrie t tr) searchString) tries)))
                else expected)))"

definition collectMatches :: "Terminal \<Rightarrow> ParsedLine \<Rightarrow> gostring list" where
  "collectMatches t parsedLine =
     (case Command parsedLine of
        None \<Rightarrow> PrefixMatch (functionsAutoComplete t) []
      | Some cmd \<Rightarrow>
          (case Focus parsedLine of
             None \<Rightarrow> expectedMatches t parsedLine cmd
           | Some f \<Rightarrow>
               if Start f = 0 then PrefixMatch (functionsAutoComplete t) (Value f)
               else expectedMatches t parsedLine cmd))"

definition defaultAutoComplete ::
  "externals \<Rightarrow> Terminal \<Rightarrow> gostring \<Rightarrow> nat \<Rightarrow> rune \<Rightarrow> (Terminal \<times> gostring \<times> nat \<times> bool) option" where
  "defaultAutoComplete ext term l p key =
     (if key = 0x09 then
        (let term1 = (if \<not> autoCompleting term then startAutoComplete term l p else term);
             matches = sortStrings (collectMatches term1
                         (ParseLine ext (autoCompletePendng term1) (autoCompletePos term1)));
             parsedLine = ParseLine ext l p
         in if length matches = 1 then do {
              (output, newPos) \<leftarrow> buildDisplayLine (Focus parsedLine) l (matches ! 0) p;
              Some (resetAutoComplete term1,
                    (case Focus parsedLine of
                       None \<Rightarrow> (output, newPos, True)
                     | Some f \<Rightarrow> if Type f = CmdType then (output @ [0x20], newPos + 1, True)
                                 else (output, newPos, True)))
            }
            else if length matches > 1 then
              (if autoCompleteIndex term1 \<ge> length matches then None
               else do {
                 (output, newPos) \<leftarrow> buildDisplayLine (Focus parsedLine) l
                                       (matches ! autoCompleteIndex term1) p;
                 Some (term1\<lparr>autoCompleteIndex := (autoCompleteIndex term1 + 1) mod length matches\<rparr>,
                       output, newPos, True)
               })
            else Some (term1, [], 0, False))
      else Some (resetAutoComplete term, [], 0, False))"

text \<open>The branches of \<^verbatim>\<open>handleKey\<close> for the history keys and for the loop of \<^verbatim>\<open>keyDeleteLine\<close>.\<close>

definition historyUp :: "Terminal \<Rightarrow> Terminal option" where
  "historyUp t =
     (case NthPreviousEntry (history t) (historyIndex t + 1) of
        Inl e \<Rightarrow> None
      | Inr (entry, ok) \<Rightarrow>
          if \<not> ok then Some t
          else (let t1 = (if historyIndex t = - 1 then t\<lparr>historyPending := encode (line t)\<rparr> else t);
                    t2 = t1\<lparr>historyIndex := historyIndex t1 + 1\<rparr>
                in setLine t2 (runes entry) (length (runes entry))))"

definition historyDown :: "Terminal \<Rightarrow> Terminal option" where
  "historyDown t =
     (if historyIndex t = - 1 then Some t
      else if historyIndex t = 0 then do {
        t1 \<leftarrow> setLine t (runes (historyPending t)) (length (runes (historyPending t)));
        Some (t1\<lparr>historyIndex := historyIndex t1 - 1\<rparr>)
      }
      else (case NthPreviousEntry (history t) (historyIndex t - 1) of
              Inl e \<Rightarrow> None
            | Inr (entry, ok) \<Rightarrow>
                if ok then setLine (t\<lparr>historyIndex := historyIndex t - 1\<rparr>)
                             (runes entry) (length (runes entry))
                else Some t))"

fun spacesAdvance :: "nat \<Rightarrow> Terminal \<Rightarrow> Terminal option" where
  "spacesAdvance 0 t = Some t"
| "spacesAdvance (Suc n) t =
     (case advanceCursor (queue t space) 1 of None \<Rightarrow> None | Some t' \<Rightarrow> spacesAdvance n t')"

text \<open>The keys of the first \<^verbatim>\<open>switch\<close> of \<^verbatim>\<open>handleKey\<close>, which reset the completion.\<close>

definition resetsAutoComplete :: "rune \<Rightarrow> bool" where
  "resetsAutoComplete key \<longleftrightarrow>
     key \<in> {keyBackspace, keyAltLeft, keyAltRight, keyLeft, keyRight, keyHome, keyEnd, keyDel,
            keyUp, keyDown, keyEnter, keyDeleteWord, keyDeleteLine, keyCtrlD, keyCtrlU,
            keyClearScreen}"

text \<open>The \<^verbatim>\<open>default\<close> case of the second \<^verbatim>\<open>switch\<close>: the completion callback, then the key.\<close>

definition defaultKey :: "externals \<Rightarrow> Terminal \<Rightarrow> rune \<Rightarrow> (Terminal \<times> gostring \<times> bool) option" where
  "defaultKey ext t key =
     (case (case AutoCompleteCallback t of
              NoCallback \<Rightarrow> Some (t, [], 0, False)
            | DefaultAutoComplete \<Rightarrow>
                (if pos t > length (line t) then None
                 else defaultAutoComplete ext t
                        (encode (take (pos t) (line t)) @ encode (drop (pos t) (line t)))
                        (length (encode (take (pos t) (line t)))) key)) of
        None \<Rightarrow> None
      | Some (t1, newLine, newPos, completeOk) \<Rightarrow>
          if completeOk then
            (if newPos > length newLine then None
             else map_option (\<lambda>t'. (t', [], False))
                    (setLine t1 (runes newLine) (RuneCount (take newPos newLine))))
          else if \<not> isPrintable key then Some (t1, [], False)
          else if length (line t1) = maxLineLength then Some (t1, [], False)
          else map_option (\<lambda>t'. (t', [], False)) (addKeyToLine t1 key))"

text \<open>
  \<^verbatim>\<open>handleKey\<close>: the terminal after the key, and the pair \<^verbatim>\<open>(line, ok)\<close> it returns.
\<close>

definition noLine :: "Terminal option \<Rightarrow> (Terminal \<times> gostring \<times> bool) option" where
  "noLine r = map_option (\<lambda>t. (t, [], False)) r"

definition handleKey :: "externals \<Rightarrow> Terminal \<Rightarrow> rune \<Rightarrow> (Terminal \<times> gostring \<times> bool) option" where
  "handleKey ext t0 key =
     (if pasteActive t0 \<and> key \<noteq> keyEnter then noLine (addKeyToLine (resetAutoComplete t0) key)
      else (let t = (if resetsAutoComplete key then resetAutoComplete t0 else t0) in
        if key = keyDel then
          (if pos t \<ge> length (line t) \<or> length (line t) = 0 then Some (t, [], False)
           else noLine (eraseNPreviousChars (t\<lparr>pos := pos t + 1\<rparr>) 1))
        else if key = keyBackspace then
          (if pos t = 0 then Some (t, [], False) else noLine (eraseNPreviousChars t 1))
        else if key = keyAltLeft then
          noLine (do { n \<leftarrow> countToLeftWord t;
                       moveCursorToPos (t\<lparr>pos := pos t - n\<rparr>) (pos t - n) })
        else if key = keyAltRight then
          noLine (moveCursorToPos (t\<lparr>pos := pos t + countToRightWord t\<rparr>)
                    (pos t + countToRightWord t))
        else if key = keyLeft then
          (if pos t = 0 then Some (t, [], False)
           else noLine (moveCursorToPos (t\<lparr>pos := pos t - 1\<rparr>) (pos t - 1)))
        else if key = keyRight then
          (if pos t = length (line t) then Some (t, [], False)
           else noLine (moveCursorToPos (t\<lparr>pos := pos t + 1\<rparr>) (pos t + 1)))
        else if key = keyHome then
          (if pos t = 0 then Some (t, [], False)
           else noLine (moveCursorToPos (t\<lparr>pos := 0\<rparr>) 0))
        else if key = keyEnd then
          (if pos t = length (line t) then Some (t, [], False)
           else noLine (moveCursorToPos (t\<lparr>pos := length (line t)\<rparr>) (length (line t))))
        else if key = keyUp then noLine (historyUp t)
        else if key = keyDown then noLine (historyDown t)
        else if key = keyEnter then do {
          t1 \<leftarrow> moveCursorToPos t (length (line t));
          let t2 = queue t1 [0x0D, 0x0A];
          Some (t2\<lparr>line := [], pos := 0, cursorX := 0, cursorY := 0, maxLine := 0\<rparr>,
                encode (line t2), True)
        }
        else if key = keyDeleteWord then
          noLine (do { n \<leftarrow> countToLeftWord t; eraseNPreviousChars t n })
        else if key = keyDeleteLine then
          noLine (do {
            t1 \<leftarrow> spacesAdvance (length (line t) - pos t) t;
            t2 \<leftarrow> (if pos t1 \<le> length (line t1)
                   then Some (t1\<lparr>line := take (pos t1) (line t1)\<rparr>) else None);
            moveCursorToPos t2 (pos t2)
          })
        else if key = keyCtrlD then
          (if pos t < length (line t) then noLine (eraseNPreviousChars (t\<lparr>pos := pos t + 1\<rparr>) 1)
           else Some (t, [], False))
        else if key = keyCtrlU then noLine (eraseNPreviousChars t (pos t))
        else if key = keyClearScreen then
          noLine (do {
            let t1 = queue (queue t [0x1B, 0x5B, 0x32, 0x4A, 0x1B, 0x5B, 0x48]) (prompt t);
            t2 \<leftarrow> advanceCursor (t1\<lparr>cursorX := 0, cursorY := 0\<rparr>) (visualLength (prompt t1));
            setLine t2 (line t2) (pos t2)
          })
        else if key = keyCtrlC then
          noLine (do {
            let t1 = queue (queue t [0x5E, 0x43, 0x0D, 0x0A]) (prompt t);
            t2 \<leftarrow> advanceCursor (t1\<lparr>cursorX := 0\<rparr>) (visualLength (prompt t1));
            setLine t2 [] 0
          })
        else defaultKey ext t key))"


text \<open>\<^verbatim>\<open>writeWithCRLF\<close>, on a channel whose writes succeed: every \<^verbatim>\<open>\n\<close> becomes \<^verbatim>\<open>\r\n\<close>.\<close>

definition withCRLF :: "byte list \<Rightarrow> byte list" where
  "withCRLF buf = concat (map (\<lambda>b. if b = 0x0A then [0x0D, 0x0A] else [b]) buf)"

text \<open>\<^verbatim>\<open>t.c.Write(t.outBuf); t.outBuf = t.outBuf[:0]\<close>\<close>

definition flush :: "Terminal \<Rightarrow> Terminal" where
  "flush t = t\<lparr>written := written t @ outBuf t, outBuf := []\<rparr>"

text \<open>The loop of \<^verbatim>\<open>Write\<close> that clears the rows above, for \<open>n = cursorY\<close>.\<close>

fun clearUp :: "nat \<Rightarrow> Terminal \<Rightarrow> Terminal" where
  "clearUp 0 t = t"
| "clearUp (Suc n) t = clearUp n (clearLineToRight ((move t 1 0 0 0)\<lparr>cursorY := cursorY t - 1\<rparr>))"

definition Write :: "Terminal \<Rightarrow> byte list \<Rightarrow> Terminal option" where
  "Write t buf =
     (if raw t then Some (t\<lparr>written := written t @ buf\<rparr>)
      else if cursorX t = 0 \<and> cursorY t = 0 then Some (t\<lparr>written := written t @ withCRLF buf\<rparr>)
      else do {
        let t1 = clearLineToRight ((move t 0 0 (cursorX t) 0)\<lparr>cursorX := 0\<rparr>);
        let t2 = flush (clearUp (nat (cursorY t1)) t1);
        let t3 = t2\<lparr>written := written t2 @ withCRLF buf\<rparr>;
        t4 \<leftarrow> writeLine t3 (prompt t3);
        t5 \<leftarrow> (if echo t4 then writeLine t4 (line t4) else Some t4);
        t6 \<leftarrow> moveCursorToPos t5 (pos t5);
        Some (flush t6)
      })"

text \<open>
  The input side of the channel: the results of the successive calls of \<^verbatim>\<open>t.c.Read\<close>,
  each an error or the bytes read (never more than the buffer holds). When they are used
  up, the next read blocks.
\<close>

datatype read_result = ReadError go_error | ReadBytes "byte list"

datatype key_loop =
    KBreak Terminal bool "byte list"
  | KLine Terminal bool "byte list" gostring
  | KCtrlD Terminal
  | KPanic

lemma afterSeqEnd_shorter: "afterSeqEnd b = Some r \<Longrightarrow> length r < length b"
  by (induction b) (auto split: if_splits)

lemma ret_slice_shorter:
  "ret k (slice_from b n) = Inr (key, r) \<Longrightarrow> 0 < n \<Longrightarrow> length r < length b"
  by (auto simp: ret_def slice_from_def split: if_splits)

lemma bytesToKey_consumes:
  assumes "bytesToKey b p = Inr (key, r)" and "key \<noteq> RuneError"
  shows "length r < length b"
proof (cases "b = []")
  case True
  with assms show ?thesis by (simp add: bytesToKey_def)
next
  case False
  have w: "0 < snd (DecodeRune b)" using DecodeRune_width [OF False] by simp
  show ?thesis
    using assms False w
    by (auto simp: bytesToKey_def csiKey_def altKey_def Let_def
             dest!: ret_slice_shorter afterSeqEnd_shorter
             split: option.splits if_splits)
qed


text \<open>
  The inner loop of \<^verbatim>\<open>readLine\<close>: keys are decoded from \<open>rest\<close> and handled until a line
  is complete, no further key can be decoded, or Ctrl-D arrives on an empty line.
\<close>

function keyLoop :: "externals \<Rightarrow> Terminal \<Rightarrow> bool \<Rightarrow> byte list \<Rightarrow> key_loop" where
  "keyLoop ext t lineIsPasted rest =
     (case bytesToKey rest (pasteActive t) of
        Inl e \<Rightarrow> KPanic
      | Inr (key, rest') \<Rightarrow>
          if key = RuneError then KBreak t lineIsPasted rest'
          else if \<not> pasteActive t \<and> key = keyCtrlD \<and> length (line t) = 0 then KCtrlD t
          else if \<not> pasteActive t \<and> key = keyPasteStart
            then keyLoop ext (t\<lparr>pasteActive := True\<rparr>)
                   (if length (line t) = 0 then True else lineIsPasted) rest'
          else if pasteActive t \<and> key = keyPasteEnd
            then keyLoop ext (t\<lparr>pasteActive := False\<rparr>) lineIsPasted rest'
          else (case handleKey ext t key of
                  None \<Rightarrow> KPanic
                | Some (t', l, lineOk) \<Rightarrow>
                    if lineOk then KLine t' (if \<not> pasteActive t then False else lineIsPasted) rest' l
                    else keyLoop ext t' (if \<not> pasteActive t then False else lineIsPasted) rest'))"
  by pat_completeness auto
termination
  by (relation "measure (\<lambda>(ext, t, lp, rest). length rest)")
     (auto dest: bytesToKey_consumes)

declare keyLoop.simps [simp del]

datatype read_outcome = Line gostring "go_error option" | WaitingForInput | GoPanic

text \<open>The end of \<^verbatim>\<open>readLine\<close> for a complete line: the history, and the paste indicator.\<close>

definition commitLine :: "Terminal \<Rightarrow> bool \<Rightarrow> gostring \<Rightarrow> read_outcome \<times> Terminal" where
  "commitLine t lineIsPasted l =
     (let err = (if lineIsPasted then Some ErrPasteIndicator else None) in
      if echo t then
        (let t1 = t\<lparr>historyIndex := - 1\<rparr>; line2 = TrimSpace l in
         if line2 \<noteq> [] then
           (case Add (history t1) line2 of
              Inl e \<Rightarrow> (GoPanic, t1)
            | Inr h \<Rightarrow> (Line l err, t1\<lparr>history := h\<rparr>))
         else (Line l err, t1))
      else (Line l err, t))"

text \<open>The outer loop of \<^verbatim>\<open>readLine\<close>, one round for each read of the channel.\<close>

fun readLoop ::
  "externals \<Rightarrow> Terminal \<Rightarrow> bool \<Rightarrow> read_result list \<Rightarrow> read_outcome \<times> Terminal \<times> read_result list" where
  "readLoop ext t lineIsPasted script =
     (case keyLoop ext t lineIsPasted (remainder t) of
        KPanic \<Rightarrow> (GoPanic, t, script)
      | KCtrlD t' \<Rightarrow> (Line [] (Some ErrCtrlD), t', script)
      | KLine t' lp rest l \<Rightarrow>
          (let (r, t'') = commitLine (flush (t'\<lparr>remainder := take 256 rest\<rparr>)) lp l
           in (r, t'', script))
      | KBreak t' lp rest \<Rightarrow>
          (let t1 = flush (t'\<lparr>remainder := take 256 rest\<rparr>) in
           case script of
             [] \<Rightarrow> (WaitingForInput, t1, [])
           | ReadError e # script' \<Rightarrow> (Line [] (Some e), t1, script')
           | ReadBytes bs # script' \<Rightarrow>
               readLoop ext
                 (t1\<lparr>remainder := remainder t1 @ take (256 - length (remainder t1)) bs\<rparr>)
                 lp script'))"

declare readLoop.simps [simp del]

definition readLine ::
  "externals \<Rightarrow> Terminal \<Rightarrow> read_result list \<Rightarrow> read_outcome \<times> Terminal \<times> read_result list" where
  "readLine ext t script =
     (case (if cursorX t = 0 \<and> cursorY t = 0
            then map_option flush (writeLine t (prompt t)) else Some t) of
        None \<Rightarrow> (GoPanic, t, script)
      | Some t1 \<Rightarrow>
          (case rawOverflow t1 of
             None \<Rightarrow> readLoop ext t1 (pasteActive t1) script
           | Some None \<Rightarrow> (WaitingForInput, t1, script)
           | Some (Some data) \<Rightarrow>
               readLoop ext (t1\<lparr>remainder := take 256 data, rawOverflow := None\<rparr>)
                 (pasteActive t1) script))"

definition ReadLine ::
  "externals \<Rightarrow> Terminal \<Rightarrow> read_result list \<Rightarrow> read_outcome \<times> Terminal \<times> read_result list" where
  "ReadLine ext t script = readLine ext t script"

text \<open>\<^verbatim>\<open>clearAndRepaintLinePlusNPrevious\<close>; its loop runs from row 0 to \<open>numPrevLines\<close>.\<close>

fun clearDown :: "nat \<Rightarrow> Terminal \<Rightarrow> Terminal" where
  "clearDown 0 t = t"
| "clearDown (Suc n) t = clearDown n (clearLineToRight ((move t 0 1 0 0)\<lparr>cursorY := cursorY t + 1\<rparr>))"

definition clearAndRepaintLinePlusNPrevious :: "Terminal \<Rightarrow> int \<Rightarrow> Terminal option" where
  "clearAndRepaintLinePlusNPrevious t numPrevLines =
     (let t1 = clearLineToRight ((move t (cursorY t) 0 (cursorX t) 0)\<lparr>cursorX := 0, cursorY := 0\<rparr>);
          t2 = clearDown (nat numPrevLines) t1;
          t3 = (move t2 (cursorY t2) 0 0 0)\<lparr>cursorX := 0, cursorY := 0\<rparr>
      in do {
        t4 \<leftarrow> advanceCursor (queue t3 (prompt t3)) (visualLength (prompt t3));
        t5 \<leftarrow> writeLine t4 (line t4);
        moveCursorToPos t5 (pos t5)
      })"

definition SetSize :: "Terminal \<Rightarrow> int \<Rightarrow> int \<Rightarrow> Terminal option" where
  "SetSize t width0 height =
     (let width = (if width0 = 0 then 1 else width0);
          oldWidth = termWidth t;
          t1 = t\<lparr>termWidth := width, termHeight := height\<rparr>
      in if width = oldWidth then Some t1
         else if length (line t1) = 0 \<and> cursorX t1 = 0 \<and> cursorY t1 = 0 then Some t1
         else if width < oldWidth then
           (let t2 = (if cursorX t1 \<ge> termWidth t1 then t1\<lparr>cursorX := termWidth t1 - 1\<rparr> else t1);
                t3 = t2\<lparr>cursorY := cursorY t2 * 2\<rparr>
            in map_option flush (clearAndRepaintLinePlusNPrevious t3 (maxLine t3 * 2)))
         else map_option flush (clearAndRepaintLinePlusNPrevious t1 (maxLine t1)))"

section \<open>Command dispatcher: \<^verbatim>\<open>Terminal.Run\<close>\<close>

text \<open>\<^verbatim>\<open>removeDuplicates\<close>: the first occurrences, sorted.\<close>

fun firstOccurrences :: "gostring list \<Rightarrow> gostring list \<Rightarrow> gostring list" where
  "firstOccurrences allKeys [] = []"
| "firstOccurrences allKeys (item # items) =
     (if item \<in> set allKeys then firstOccurrences allKeys items
      else item # firstOccurrences (item # allKeys) items)"

definition removeDuplicates :: "gostring list \<Rightarrow> gostring list" where
  "removeDuplicates stringsSlice = sortStrings (firstOccurrences [] stringsSlice)"

text \<open>\<^verbatim>\<open>strings.Join\<close>\<close>

fun Join :: "gostring list \<Rightarrow> gostring \<Rightarrow> gostring" where
  "Join [] sep = []"
| "Join [x] sep = x"
| "Join (x # y # ys) sep = x @ sep @ Join (y # ys) sep"

datatype run_outcome = Exited go_error | RunBlocked | RunPanic | OutOfFuel

text \<open>
  What \<^verbatim>\<open>Run\<close> does with a line that \<^verbatim>\<open>ReadLine\<close> returned without an error: \<open>None\<close> when
  the loop goes on, the error when the loop returns it. A panic is the outer \<open>None\<close>.
\<close>

definition dispatch :: "externals \<Rightarrow> Terminal \<Rightarrow> gostring \<Rightarrow> (go_error option \<times> Terminal) option" where
  "dispatch ext t l =
     (let parsedLine = ParseLine ext l (pos t) in
      case Command parsedLine of
        None \<Rightarrow> Some (None, t)
      | Some cmd \<Rightarrow>
          (case functions' t (Value cmd) of
             None \<Rightarrow>
               map_option (Pair None)
                 (Write t (str ''Unknown command: '' @ Value cmd @ [0x0A]))
           | Some f \<Rightarrow>
               if str ''h'' \<in> set (Flags parsedLine) \<or> str ''help'' \<in> set (Flags parsedLine)
               then map_option (Pair None) (Write t (Help f False))
               else (let failed = filter (\<lambda>flag. ValidArgs f flag = None \<and>
                                                   \<not> (flag = str ''h'' \<or> flag = str ''help''))
                                    (Flags parsedLine)
                     in if length failed > 0 then
                          (let failed' = removeDuplicates failed;
                               suffix = (if length failed' > 1 then str ''s'' else [])
                           in do {
                             t1 \<leftarrow> Write t (str ''invalid flag'' @ suffix @ str '': '' @
                                            Quote ext (Join failed' (str '', '')) @ [0x0A, 0x0A]);
                             t2 \<leftarrow> Write t1 (Help f False);
                             Some (None, t2)
                           })
                        else do {
                          t1 \<leftarrow> (if fst (RunCommand f parsedLine) = [] then Some t
                                 else Write t (fst (RunCommand f parsedLine)));
                          (case snd (RunCommand f parsedLine) of
                             None \<Rightarrow> Some (None, t1)
                           | Some err \<Rightarrow>
                               if err = io_EOF then Some (Some err, t1)
                               else map_option (Pair None) (Write t1 (Error err @ [0x0A])))
                        })))"

text \<open>
  \<^verbatim>\<open>Run\<close>. The loop has no bound of its own; the first argument bounds the number of
  rounds of the model, and \<open>OutOfFuel\<close> says that the bound was reached.
\<close>

fun Run ::
  "nat \<Rightarrow> externals \<Rightarrow> Terminal \<Rightarrow> read_result list \<Rightarrow> run_outcome \<times> Terminal \<times> read_result list" where
  "Run 0 ext t script = (OutOfFuel, t, script)"
| "Run (Suc n) ext t script =
     (case ReadLine ext t script of
        (GoPanic, t', script') \<Rightarrow> (RunPanic, t', script')
      | (WaitingForInput, t', script') \<Rightarrow> (RunBlocked, t', script')
      | (Line l (Some err), t', script') \<Rightarrow> (Exited err, t', script')
      | (Line l None, t', script') \<Rightarrow>
          (case dispatch ext t' l of
             None \<Rightarrow> (RunPanic, t', script')
           | Some (Some err, t'') \<Rightarrow> (Exited err, t'', script')
           | Some (None, t'') \<Rightarrow> Run n ext t'' script'))"

text \<open>
  The relation between a terminal and the same terminal after drawing: only the cursor,
  the highest row and the output buffer may differ.
\<close>

definition display_only :: "Terminal \<Rightarrow> Terminal \<Rightarrow> bool" where
  "display_only t t' \<longleftrightarrow>
     t' = t\<lparr>cursorX := cursorX t', cursorY := cursorY t', maxLine := maxLine t',
            outBuf := outBuf t'\<rparr>"

section \<open>A parser for the scenarios\<close>

text \<open>
  Modelled from the spec: \<^verbatim>\<open>ParseLine\<close> (the parser of the repository is missing).
  White space separates tokens; the first token is the command; a token that begins with
  \<^verbatim>\<open>-\<close> is a flag, named by the characters after the dashes up to the first \<^verbatim>\<open>=\<close>; the
  other tokens are arguments. The focus is the token whose half-open interval
  \<open>[start, end)\<close> contains the cursor: on white space, and right after the last character
  of a token, there is no focus. The section is the token under the cursor or, if there is
  none, the closest token before the cursor.
\<close>

fun scanTokens :: "nat \<Rightarrow> (nat \<times> gostring) option \<Rightarrow> gostring \<Rightarrow> (nat \<times> gostring) list" where
  "scanTokens i cur [] = (case cur of None \<Rightarrow> [] | Some tok \<Rightarrow> [tok])"
| "scanTokens i cur (c # cs) =
     (if c = 0x20
      then (case cur of None \<Rightarrow> scanTokens (i + 1) None cs
                      | Some tok \<Rightarrow> tok # scanTokens (i + 1) None cs)
      else (case cur of None \<Rightarrow> scanTokens (i + 1) (Some (i, [c])) cs
                      | Some (s, v) \<Rightarrow> scanTokens (i + 1) (Some (s, v @ [c])) cs))"

definition flagName :: "gostring \<Rightarrow> gostring" where
  "flagName tok = takeWhile (\<lambda>c. c \<noteq> 0x3D) (dropWhile (\<lambda>c. c = 0x2D) tok)"

definition tokenNode :: "bool \<Rightarrow> nat \<times> gostring \<Rightarrow> Node" where
  "tokenNode isFirst tok =
     (if isFirst then \<lparr>Type = CmdType, Value = snd tok, Start = fst tok, End = fst tok + length (snd tok)\<rparr>
      else if take 1 (snd tok) = [0x2D]
        then \<lparr>Type = FlagType, Value = flagName (snd tok), Start = fst tok,
              End = fst tok + length (snd tok)\<rparr>
      else \<lparr>Type = ArgumentType, Value = snd tok, Start = fst tok,
            End = fst tok + length (snd tok)\<rparr>)"

definition lineNodes :: "gostring \<Rightarrow> Node list" where
  "lineNodes l =
     (case scanTokens 0 None l of
        [] \<Rightarrow> []
      | tok # toks \<Rightarrow> tokenNode True tok # map (tokenNode False) toks)"

definition specParseLine :: "gostring \<Rightarrow> nat \<Rightarrow> ParsedLine" where
  "specParseLine l cursor =
     (let nodes = lineNodes l in
      \<lparr>Command = (case nodes of [] \<Rightarrow> None | n # _ \<Rightarrow> Some n),
       Focus = find (\<lambda>n. Start n \<le> cursor \<and> cursor < End n) nodes,
       Section = find (\<lambda>n. Start n \<le> cursor) (rev nodes),
       Flags = map Value (filter (\<lambda>n. Type n = FlagType) nodes)\<rparr>)"

text \<open>
  Modelled from the spec: the quoting of \<^verbatim>\<open>%q\<close> for the scenarios, double quotes around
  a text that needs no escape.
\<close>

definition specExternals :: externals where
  "specExternals = \<lparr>ParseLine = specParseLine, Quote = (\<lambda>s. [0x22] @ s @ [0x22])\<rparr>"



section \<open>Scenarios of the editor\<close>

definition plainCommand :: Command where
  "plainCommand = \<lparr>Expect = (\<lambda>_. None), RunCommand = (\<lambda>_. ([], None)),
                    Help = (\<lambda>_. str ''usage''), ValidArgs = Map.empty\<rparr>"

text \<open>
  An advanced terminal with the prompt \<^verbatim>\<open>> \<close> and the commands \<^verbatim>\<open>help\<close>, \<^verbatim>\<open>hello\<close> and
  \<^verbatim>\<open>exit\<close>.
\<close>

definition scenarioTerminal :: Terminal where
  "scenarioTerminal =
     AddCommands (NewAdvancedTerminal (str ''<functions>'') [0x3E, 0x20])
       [(str ''help'', plainCommand), (str ''hello'', plainCommand), (str ''exit'', plainCommand)]"

text \<open>The same terminal after \<^verbatim>\<open>ReadLine\<close> has printed the prompt and read \<^verbatim>\<open>hel\<close>.\<close>

definition typedHel :: Terminal where
  "typedHel = scenarioTerminal\<lparr>line := [0x68, 0x65, 0x6C], pos := 3, cursorX := 5,
                               written := str ''> hel''\<rparr>"

text \<open>A paste of \<^verbatim>\<open>help\<close> and a carriage return, between the paste brackets.\<close>

definition pastedHelp :: "read_result list" where
  "pastedHelp = [ReadBytes (pasteStart @ str ''help'' @ [0x0D] @ pasteEnd)]"

text \<open>
  A terminal whose line holds 4096 times the letter \<^verbatim>\<open>a\<close>, with the cursor at its end
  (row 51, column 18 of an 80-column terminal, after the prompt \<^verbatim>\<open>> \<close>), outside and inside
  a bracketed paste.
\<close>

definition fullLine :: Terminal where
  "fullLine = (NewTerminal [0x3E, 0x20])\<lparr>line := replicate 4096 0x61, pos := 4096,
                 cursorX := 18, cursorY := 51, maxLine := 51\<rparr>"

definition fullPaste :: Terminal where
  "fullPaste = fullLine\<lparr>pasteActive := True\<rparr>"

text \<open>The terminal that a result of the inner loop of \<^verbatim>\<open>readLine\<close> carries.\<close>

fun kl_state :: "key_loop \<Rightarrow> Terminal option" where
  "kl_state (KBreak t lp rest) = Some t"
| "kl_state (KLine t lp rest l) = Some t"
| "kl_state (KCtrlD t) = Some t"
| "kl_state KPanic = None"

section \<open>Sequences of \<^verbatim>\<open>ReadLine\<close> calls, and clean histories\<close>

text \<open>\<open>n\<close> calls of \<^verbatim>\<open>ReadLine\<close> in a row: what they return, oldest first, and the state after.\<close>

fun ReadLines ::
  "nat \<Rightarrow> externals \<Rightarrow> Terminal \<Rightarrow> read_result list \<Rightarrow> read_outcome list \<times> Terminal \<times> read_result list" where
  "ReadLines 0 ext t script = ([], t, script)"
| "ReadLines (Suc n) ext t script =
     (case ReadLine ext t script of
        (r, t', script') \<Rightarrow>
          (case ReadLines n ext t' script' of (rs, t'', script'') \<Rightarrow> (r # rs, t'', script'')))"

text \<open>
  An entry is not blank when it is not empty and its last character, as Go decodes it,
  is not white space. A history is clean when it represents a list of entries that are
  not blank.
\<close>

definition nonblank :: "gostring \<Rightarrow> bool" where
  "nonblank e \<longleftrightarrow> e \<noteq> [] \<and> \<not> IsSpace (fst (DecodeLastRune e))"

definition history_clean :: "stRingBuffer \<Rightarrow> bool" where
  "history_clean h \<longleftrightarrow> (\<exists>hist. ring_inv h hist \<and> (\<forall>e \<in> set hist. nonblank e))"

text \<open>Three lines typed at a fresh terminal: \<^verbatim>\<open>ls\<close> between blanks, blanks only, nothing.\<close>

definition threeLines :: "read_result list" where
  "threeLines = [ReadBytes (str ''  ls '' @ [0x0D]), ReadBytes (str ''   '' @ [0x0D]),
                 ReadBytes [0x0D]]"

section \<open>What \<^verbatim>\<open>SetSize\<close> writes\<close>

text \<open>
  The bytes that clear \<open>n\<close> rows below the top row and the top row itself, starting
  from row \<open>cy\<close> and column \<open>cx\<close>: up to the top row and left to column 0, clear to the end
  of the row, then \<open>n\<close> times down one row and clear, then up again by \<open>n\<close> rows.
\<close>

definition clearSeq :: "int \<Rightarrow> int \<Rightarrow> nat \<Rightarrow> byte list" where
  "clearSeq cy cx n =
     encode (moveSeq cy 0x41 @ moveSeq cx 0x44) @ encode [27, 0x5B, 0x4B] @
     concat (replicate n (encode [27, 0x5B, 0x42] @ encode [27, 0x5B, 0x4B])) @
     encode (moveSeq (int n) 0x41)"

text \<open>Painting the prompt and the line from the top left, and placing the cursor.\<close>

definition repaint :: "Terminal \<Rightarrow> Terminal option" where
  "repaint t = do {
     t1 \<leftarrow> advanceCursor (queue t (prompt t)) (visualLength (prompt t));
     t2 \<leftarrow> writeLine t1 (line t1);
     moveCursorToPos t2 (pos t2)
   }"

text \<open>
  A new terminal after \<^verbatim>\<open>ReadLine\<close> has printed the prompt \<^verbatim>\<open>> \<close>, with nothing typed; and
  a terminal without a prompt on which fifty letters were typed.
\<close>

definition promptShown :: Terminal where
  "promptShown = (NewTerminal [0x3E, 0x20])\<lparr>cursorX := 2, written := str ''> ''\<rparr>"

definition fiftyTyped :: Terminal where
  "fiftyTyped = (NewTerminal [])\<lparr>line := replicate 50 0x61, pos := 50, cursorX := 50,
                                 written := replicate 50 0x61\<rparr>"





section \<open>Well-formed terminals\<close>

text \<open>
  The states in which the editor draws without a panic: the width is positive, the
  cursor column is on the screen, and the position is within the line.
\<close>

definition wf_terminal :: "Terminal \<Rightarrow> bool" where
  "wf_terminal t \<longleftrightarrow>
     0 < termWidth t \<and> 0 \<le> cursorX t \<and> cursorX t < termWidth t \<and> pos t \<le> length (line t)"

text \<open>The part of well-formedness that drawing can change.\<close>

definition wf_cursor :: "Terminal \<Rightarrow> bool" where
  "wf_cursor t \<longleftrightarrow> 0 < termWidth t \<and> 0 \<le> cursorX t \<and> cursorX t < termWidth t"

section \<open>A scenario of the dispatcher\<close>

text \<open>
  A terminal with a command \<^verbatim>\<open>fail\<close>, whose handler returns the error \<^verbatim>\<open>boom\<close>, and a
  command \<^verbatim>\<open>quit\<close>, whose handler returns \<^verbatim>\<open>io.EOF\<close>; and an operator who types both.
\<close>

definition failingCommand :: Command where
  "failingCommand = \<lparr>Expect = (\<lambda>_. None),
                      RunCommand = (\<lambda>_. ([], Some (OtherError (str ''boom'')))),
                      Help = (\<lambda>_. str ''usage''), ValidArgs = Map.empty\<rparr>"

definition quitCommand :: Command where
  "quitCommand = \<lparr>Expect = (\<lambda>_. None), RunCommand = (\<lambda>_. ([], Some io_EOF)),
                   Help = (\<lambda>_. str ''usage''), ValidArgs = Map.empty\<rparr>"

definition dispatcherTerminal :: Terminal where
  "dispatcherTerminal =
     AddCommands (NewAdvancedTerminal (str ''<functions>'') [0x3E, 0x20])
       [(str ''fail'', failingCommand), (str ''quit'', quitCommand)]"

definition failThenQuit :: "read_result list" where
  "failThenQuit = [ReadBytes (str ''fail'' @ [0x0D]), ReadBytes (str ''quit'' @ [0x0D])]"

section \<open>Properties\<close>

lemma go_rem_nonneg: "0 \<le> a \<Longrightarrow> 0 < b \<Longrightarrow> go_rem a b = Inr (a mod b)"
  by (simp add: go_rem_def signed_modulo_int_def sgn_if)

lemma ring_inv_empty: "ring_inv emptyRing []"
  by (simp add: ring_inv_def emptyRing_def)

lemma ring_mod_fresh:
  assumes m: "0 \<le> (m::int)" "m < 100" and j: "1 \<le> j" "j < 100"
  shows "(m - j) mod 100 \<noteq> m"
proof
  assume e: "(m - j) mod 100 = m"
  show False
  proof (cases "j \<le> m")
    case True
    then have "(m - j) mod 100 = m - j"
      using m j by (intro mod_pos_pos_trivial) linarith+
    with e j show False by simp
  next
    case False
    have b: "(m - j + 100) mod 100 = m - j + 100"
      using False m j by (intro mod_pos_pos_trivial) linarith+
    have c: "(m - j + 100) mod 100 = (m - j) mod 100" by simp
    from b c e j show False by linarith
  qed
qed

lemma ring_wrap:
  assumes "0 \<le> (h::int)" "h < 100" "0 \<le> n" "n < 100"
  shows "(if h - n < 0 then h - n + 100 else h - n) = (h - n) mod 100"
proof (cases "h - n < 0")
  case True
  then have b: "(h - n + 100) mod 100 = h - n + 100"
    using assms by (intro mod_pos_pos_trivial) linarith+
  have c: "(h - n + 100) mod 100 = (h - n) mod 100" by simp
  from b c True show ?thesis by simp
next
  case False
  then have "(h - n) mod 100 = h - n"
    using assms by (intro mod_pos_pos_trivial) linarith+
  with False show ?thesis by simp
qed

lemma Add_empty: "\<exists>s'. Add emptyRing a = Inr s' \<and> ring_inv s' [a]"
  by (simp add: Add_def emptyRing_def defaultNumEntries_def go_rem_def signed_modulo_int_def ring_inv_def Let_def)

lemma Add_step:
  assumes inv: "ring_inv s hist" and ne: "entries s \<noteq> []"
  shows "\<exists>s'. Add s a = Inr s' \<and> ring_inv s' (a # hist)"
proof -
  from inv ne have len: "length (entries s) = 100" and mx: "max_ring s = 100"
    and h0: "0 \<le> head s" and h1: "head s < 100"
    and sz: "size_ring s = int (min (length hist) 100)"
    and ents: "\<And>k. k < min (length hist) 100 \<Longrightarrow>
                 entries s ! nat ((head s - int k) mod 100) = hist ! k"
    by (simp_all add: ring_inv_def)
  define h' where "h' = (head s + 1) mod 100"
  have h'0: "0 \<le> h'" and h'1: "h' < 100" by (simp_all add: h'_def)
  have rem: "go_rem (head s + 1) (max_ring s) = Inr h'"
    using h0 by (simp add: mx h'_def go_rem_nonneg)
  define s' where "s' = (let s2 = s\<lparr>head := h', entries := (entries s)[nat h' := a]\<rparr>
                   in (if size_ring s2 < max_ring s2 then s2\<lparr>size_ring := size_ring s2 + 1\<rparr> else s2))"
  have add: "Add s a = Inr s'"
    using ne rem h'0 h'1 len by (simp add: Add_def s'_def Let_def)
  have e': "entries s' = (entries s)[nat h' := a]" and hd': "head s' = h'" and mx': "max_ring s' = 100"
    and sz': "size_ring s' = (if size_ring s < 100 then size_ring s + 1 else size_ring s)"
    by (simp_all add: s'_def Let_def mx)
  have sz'': "size_ring s' = int (min (length (a # hist)) 100)"
    using sz by (simp add: sz' min_def)
  have ents': "entries s' ! nat ((head s' - int k) mod 100) = (a # hist) ! k"
    if k: "k < min (length (a # hist)) 100" for k
  proof (cases k)
    case 0
    then show ?thesis using h'0 h'1 len by (simp add: e' hd' mod_pos_pos_trivial)
  next
    case (Suc j)
    with k have j: "j < min (length hist) 100" and j99: "j < 99" by simp_all
    have idx: "(h' - int (Suc j)) mod 100 = (head s - int j) mod 100"
    proof -
      have "(h' - int (Suc j)) mod 100 = ((head s + 1) - int (Suc j)) mod 100"
        unfolding h'_def by (simp add: mod_diff_left_eq)
      then show ?thesis by simp
    qed
    have "(h' - int (Suc j)) mod 100 \<noteq> h'"
      using ring_mod_fresh [of h' "int (Suc j)"] h'0 h'1 j99 by simp
    moreover have "0 \<le> (h' - int (Suc j)) mod 100" by simp
    ultimately have neq: "nat h' \<noteq> nat ((h' - int (Suc j)) mod 100)"
      using h'0 by linarith
    show ?thesis
      using neq ents [OF j] by (simp add: e' hd' Suc idx del: of_nat_Suc)
  qed
  have "ring_inv s' (a # hist)"
    unfolding ring_inv_def using ents' sz'' h'0 h'1 len ne
    by (simp add: e' hd' mx')
  with add show ?thesis by blast
qed

lemma adds_inv:
  "ring_inv s hist \<Longrightarrow> \<exists>s'. adds s xs = Inr s' \<and> ring_inv s' (rev xs @ hist)"
proof (induction xs arbitrary: s hist)
  case Nil
  then show ?case by simp
next
  case (Cons a xs)
  have "\<exists>s1. Add s a = Inr s1 \<and> ring_inv s1 (a # hist)"
  proof (cases "entries s = []")
    case True
    with Cons.prems have "s = emptyRing" "hist = []" by (simp_all add: ring_inv_def)
    then show ?thesis using Add_empty [of a] by simp
  next
    case False
    with Cons.prems show ?thesis by (rule Add_step)
  qed
  then obtain s1 where s1: "Add s a = Inr s1" "ring_inv s1 (a # hist)" by blast
  from Cons.IH [OF s1(2)] obtain s' where "adds s1 xs = Inr s'" "ring_inv s' (rev xs @ a # hist)"
    by blast
  with s1 show ?case by simp
qed

lemma Nth_inv:
  assumes inv: "ring_inv s hist" and n: "0 \<le> n"
  shows "NthPreviousEntry s n =
           Inr (if n < int (min (length hist) 100) then (hist ! nat n, True) else ([], False))"
proof (cases "n < int (min (length hist) 100)")
  case False
  with inv show ?thesis by (simp add: NthPreviousEntry_def ring_inv_def)
next
  case True
  then have lt: "nat n < min (length hist) 100" using n by linarith
  then have hne: "hist \<noteq> []" by auto
  with inv have ne: "entries s \<noteq> []" by (auto simp: ring_inv_def)
  from inv ne have len: "length (entries s) = 100" and mx: "max_ring s = 100"
    and h0: "0 \<le> head s" and h1: "head s < 100"
    and sz: "size_ring s = int (min (length hist) 100)"
    and ents: "\<And>k. k < min (length hist) 100 \<Longrightarrow>
                 entries s ! nat ((head s - int k) mod 100) = hist ! k"
    by (simp_all add: ring_inv_def)
  have n100: "n < 100" using True by simp
  define index where "index = (if head s - n < 0 then head s - n + 100 else head s - n)"
  have idx: "index = (head s - n) mod 100"
    unfolding index_def using h0 h1 n n100 by (rule ring_wrap)
  then have rng: "0 \<le> index" "index < 100" by simp_all
  have val: "entries s ! nat index = hist ! nat n"
    using ents [OF lt] n by (simp add: idx)
  have "NthPreviousEntry s n =
          (if 0 \<le> index \<and> index < int (length (entries s))
           then Inr (entries s ! nat index, True) else Inl IndexOutOfRange)"
    using True sz by (simp add: NthPreviousEntry_def mx Let_def index_def)
  then show ?thesis
    using True rng len val by simp
qed

text \<open>
  Claim C4. The history is a bounded FIFO of capacity 100: after the calls
  \<^verbatim>\<open>Add(x)\<close> for \<open>x\<close> in \<open>xs\<close>, starting from the zero value, no call has panicked, the ring
  holds \<open>min (length xs) 100\<close> entries, and \<^verbatim>\<open>NthPreviousEntry(n)\<close> for \<open>n \<ge> 0\<close> returns
  the string added \<open>n\<close> steps before the latest one (so \<open>n = 0\<close> is the most recent, and
  equal strings are all kept), with \<^verbatim>\<open>ok = false\<close> exactly when \<open>n\<close> is at least the current
  size_ring. \<^verbatim>\<open>NthPreviousEntry\<close> does not write to the ring, so the calls may be interleaved
  with the \<^verbatim>\<open>Add\<close> calls in any way.
\<close>

theorem ring_bounded_fifo:
  "\<exists>s. adds emptyRing xs = Inr s \<and>
       size_ring s = int (min (length xs) 100) \<and>
       (\<forall>n\<ge>0. NthPreviousEntry s n =
          Inr (if n < int (min (length xs) 100) then (rev xs ! nat n, True) else ([], False)))"
proof -
  from adds_inv [OF ring_inv_empty, of xs] obtain s
    where s: "adds emptyRing xs = Inr s" "ring_inv s (rev xs)" by auto
  from s(2) have "size_ring s = int (min (length xs) 100)" by (simp add: ring_inv_def)
  moreover have "\<forall>n\<ge>0. NthPreviousEntry s n =
          Inr (if n < int (min (length xs) 100) then (rev xs ! nat n, True) else ([], False))"
    using Nth_inv [OF s(2)] by simp
  ultimately show ?thesis using s(1) by blast
qed

theorem ring_bounded_fifo_witness:
  "(0::int) \<le> 1 \<and> (\<exists>s. adds emptyRing [str ''ls'', str ''help'', str ''ls''] = Inr s \<and>
       size_ring s = 3 \<and> NthPreviousEntry s 0 = Inr (str ''ls'', True) \<and> 
       NthPreviousEntry s 1 = Inr (str ''help'', True) \<and>
       NthPreviousEntry s 2 = Inr (str ''ls'', True) \<and>
       NthPreviousEntry s 3 = Inr ([], False))"
  using ring_bounded_fifo [of "[str ''ls'', str ''help'', str ''ls'']"]
  by (auto simp: str_def)

subsection \<open>Key decoder\<close>

lemma bytesToKey_delete:
  "bytesToKey (27 # 0x5B # 0x33 # 0x7E # rest) False = Inr (keyDel, rest)"
  by (simp add: bytesToKey_def ctrlKey_def csiKey_def ret_def slice_from_def)

lemma bytesToKey_partial_rune:
  "bytesToKey [0xE2, 0x82] False = Inr (RuneError, [0xE2, 0x82])"
  by (simp add: bytesToKey_def ctrlKey_def FullRune_def first_def)

lemma bytesToKey_partial_escape:
  "bytesToKey [27, 0x5B] False = Inr (RuneError, [27, 0x5B])"
  "bytesToKey [27, 0x5B, 0x31, 0x3B, 0x33] False = Inr (RuneError, [27, 0x5B, 0x31, 0x3B, 0x33])"
  "bytesToKey [27, 0x5B, 0x32, 0x30, 0x30] False = Inr (RuneError, [27, 0x5B, 0x32, 0x30, 0x30])"
  by (simp_all add: bytesToKey_def ctrlKey_def csiKey_def altKey_def isSeqEnd_def)

text \<open>
  Claim C5, at the failing input. On the three bytes \<^verbatim>\<open>ESC [ 3\<close>, a proper prefix of the
  Delete sequence, outside a paste, the decoder takes the branch \<^verbatim>\<open>case 51\<close> (guarded by
  \<^verbatim>\<open>len(b) >= 3\<close> only) and evaluates \<^verbatim>\<open>b[4:]\<close>, which is out of range: it panics instead
  of returning the sentinel with the buffer intact. The complete sequence
  \<^verbatim>\<open>ESC [ 3 ~\<close> yields Delete and consumes its four bytes.
\<close>

theorem bytesToKey_partial_delete_panics:
  "bytesToKey [27, 0x5B, 0x33] False = Inl SliceBoundsOutOfRange \<and>
   bytesToKey [27, 0x5B, 0x33, 0x7E] False = Inr (keyDel, [])"
  by (simp add: bytesToKey_def ctrlKey_def csiKey_def ret_def slice_from_def)

subsection \<open>User and session registry\<close>

lemma createOrGetUser_keys_ok:
  "registry_keys_ok reg \<Longrightarrow> registry_keys_ok (snd (createOrGetUser reg name conn))"
  by (auto simp: registry_keys_ok_def createOrGetUser_def newUser_def Let_def
           split: option.splits if_splits)

lemma DisconnectUser_keys_ok:
  "registry_keys_ok reg \<Longrightarrow> registry_keys_ok (DisconnectUser reg conn)"
  by (auto simp: registry_keys_ok_def DisconnectUser_def Let_def split: option.splits if_splits)

lemma cg_present:
  assumes ok: "registry_keys_ok reg"
  shows "\<exists>u. users (snd (createOrGetUser reg name conn)) name = Some u \<and> username u = name"
  using ok by (auto simp: registry_keys_ok_def createOrGetUser_def newUser_def Let_def
           split: option.splits if_splits)

lemma cg_others:
  "k \<noteq> name \<Longrightarrow> users (snd (createOrGetUser reg name conn)) k = users reg k"
  by (auto simp: createOrGetUser_def Let_def split: option.splits if_splits)

lemma cg_dup_only:
  "fst (createOrGetUser reg name conn) = Inl (DuplicateSession d) \<Longrightarrow>
     \<exists>sc u. conn = Some sc \<and> d = makeConnectionDetailsString sc \<and>
               users reg name = Some u \<and> d \<in> dom (userConnections u)"
  by (auto simp: createOrGetUser_def Let_def newUser_def split: option.splits if_splits)

lemma cg_present': "\<exists>u. users (snd (createOrGetUser reg name conn)) name = Some u \<and>
        (users reg name = None \<longrightarrow> username u = name \<and> clients u = Map.empty)"
  by (auto simp: createOrGetUser_def newUser_def Let_def split: option.splits if_splits)

lemma cg_nil:
  "createOrGetUser reg name None =
     (Inr (case users reg name of None \<Rightarrow> newUser name | Some u \<Rightarrow> u, []),
      reg\<lparr>users := (users reg)(name \<mapsto> (case users reg name of None \<Rightarrow> newUser name | Some u \<Rightarrow> u))\<rparr>)"
  by (auto simp: createOrGetUser_def Let_def fun_upd_idem split: option.splits)

lemma cg_duplicate:
  assumes "privilegeExt sc \<noteq> None"
    and "makeConnectionDetailsString sc \<in>
           dom (userConnections (case users reg name of None \<Rightarrow> newUser name | Some u \<Rightarrow> u))"
  shows "fst (createOrGetUser reg name (Some sc)) =
           Inl (DuplicateSession (makeConnectionDetailsString sc)) \<and>
         (\<exists>u'. users (snd (createOrGetUser reg name (Some sc))) name = Some u' \<and>
               userConnections u' =
                 userConnections (case users reg name of None \<Rightarrow> newUser name | Some u \<Rightarrow> u)) \<and>
         activeConnections (snd (createOrGetUser reg name (Some sc))) = activeConnections reg"
  using assms
  by (auto simp: createOrGetUser_def Let_def newUser_def split: option.splits if_splits)

lemma cg_attach:
  assumes "privilegeExt sc \<noteq> None"
    and "makeConnectionDetailsString sc \<notin>
           dom (userConnections (case users reg name of None \<Rightarrow> newUser name | Some u \<Rightarrow> u))"
  shows "\<exists>u'. createOrGetUser reg name (Some sc) =
                (Inr (u', makeConnectionDetailsString sc),
                 reg\<lparr>users := (users reg)(name \<mapsto> u'),
                     activeConnections :=
                       (activeConnections reg)(makeConnectionDetailsString sc \<mapsto> True)\<rparr>) \<and>
              userConnections u' =
                (userConnections (case users reg name of None \<Rightarrow> newUser name | Some u \<Rightarrow> u))
                  (makeConnectionDetailsString sc \<mapsto>
                     \<lparr>serverConnection = sc, ConnectionDetails = makeConnectionDetailsString sc\<rparr>) \<and>
              username u' = username (case users reg name of None \<Rightarrow> newUser name | Some u \<Rightarrow> u) \<and>
              clients u' = clients (case users reg name of None \<Rightarrow> newUser name | Some u \<Rightarrow> u)"
  using assms
  by (auto simp: createOrGetUser_def Let_def newUser_def split: option.splits if_splits)

lemma cg_frame:
  "allClients (snd (createOrGetUser reg name conn)) = allClients reg \<and>
   aliases (snd (createOrGetUser reg name conn)) = aliases reg"
  by (auto simp: createOrGetUser_def Let_def split: option.splits if_splits)


text \<open>
  Claim C9. \<^verbatim>\<open>CreateOrGetUser(username, sshConn)\<close> always returns normally or with the
  DuplicateSession error when the \<^verbatim>\<open>Permissions\<close> of the connection are set. Below, the
  record on entry is the record of \<open>username\<close> in the user map, or a new record (no
  sessions, no controllees) if there is none.

  \<^item> After the call the user map holds a record for \<open>username\<close>, and no other user, nor the
    maps of the controllees and of the aliases, has changed.
  \<^item> With a nil connection the call returns the record on entry and the empty string, and
    adds no session.
  \<^item> With a connection whose key \<open>user@remote-address\<close> is already among the sessions of the
    record, the call returns the DuplicateSession error for that key, and the sessions of
    the user and the global liveness set are unchanged.
  \<^item> With a connection whose key is not among the sessions of the record, the call
    succeeds: it returns the user and the key, the user in the map has the sessions on
    entry and a new session under the key that holds the connection, the same name and the
    same controllees, and the liveness set has gained the key and nothing else.
  \<^item> The DuplicateSession error is returned in no other case.
\<close>

theorem createOrGetUser_session:
  "(let old = (case users reg name of None \<Rightarrow> newUser name | Some u \<Rightarrow> u);
        res = fst (createOrGetUser reg name conn);
        reg' = snd (createOrGetUser reg name conn)
    in (\<exists>u. users reg' name = Some u \<and>
             (users reg name = None \<longrightarrow> username u = name \<and> clients u = Map.empty)) \<and>
       (\<forall>k. k \<noteq> name \<longrightarrow> users reg' k = users reg k) \<and>
       allClients reg' = allClients reg \<and> aliases reg' = aliases reg \<and>
       (conn = None \<longrightarrow>
          res = Inr (old, []) \<and> users reg' name = Some old \<and>
          activeConnections reg' = activeConnections reg) \<and>
       (\<forall>sc. conn = Some sc \<and> privilegeExt sc \<noteq> None \<and>
             connUser sc @ [0x40] @ remoteAddr sc \<in> dom (userConnections old) \<longrightarrow>
          res = Inl (DuplicateSession (connUser sc @ [0x40] @ remoteAddr sc)) \<and>
          (\<exists>u'. users reg' name = Some u' \<and> userConnections u' = userConnections old) \<and>
          activeConnections reg' = activeConnections reg) \<and>
       (\<forall>sc. conn = Some sc \<and> privilegeExt sc \<noteq> None \<and>
             connUser sc @ [0x40] @ remoteAddr sc \<notin> dom (userConnections old) \<longrightarrow>
          (\<exists>u'. res = Inr (u', connUser sc @ [0x40] @ remoteAddr sc) \<and>
                users reg' name = Some u' \<and>
                userConnections u' =
                  (userConnections old)(connUser sc @ [0x40] @ remoteAddr sc \<mapsto>
                     \<lparr>serverConnection = sc,
                      ConnectionDetails = connUser sc @ [0x40] @ remoteAddr sc\<rparr>) \<and>
                username u' = username old \<and> clients u' = clients old) \<and>
          activeConnections reg' =
            (activeConnections reg)(connUser sc @ [0x40] @ remoteAddr sc \<mapsto> True)) \<and>
       (\<forall>d. res = Inl (DuplicateSession d) \<longrightarrow>
          (\<exists>sc. conn = Some sc \<and> d = connUser sc @ [0x40] @ remoteAddr sc \<and>
                d \<in> dom (userConnections old))))"
  unfolding Let_def
proof (intro conjI allI impI)
  show "\<exists>u. users (snd (createOrGetUser reg name conn)) name = Some u \<and>
        (users reg name = None \<longrightarrow> username u = name \<and> clients u = Map.empty)"
    by (rule cg_present')
next
  fix k assume "k \<noteq> name"
  then show "users (snd (createOrGetUser reg name conn)) k = users reg k" by (rule cg_others)
next
  show "allClients (snd (createOrGetUser reg name conn)) = allClients reg"
    "aliases (snd (createOrGetUser reg name conn)) = aliases reg"
    using cg_frame by blast+
next
  assume "conn = None"
  then show "fst (createOrGetUser reg name conn) =
      Inr (case users reg name of None \<Rightarrow> newUser name | Some u \<Rightarrow> u, [])"
    "users (snd (createOrGetUser reg name conn)) name =
      Some (case users reg name of None \<Rightarrow> newUser name | Some u \<Rightarrow> u)"
    "activeConnections (snd (createOrGetUser reg name conn)) = activeConnections reg"
    by (simp_all add: cg_nil)
next
  fix sc
  assume a: "conn = Some sc \<and> privilegeExt sc \<noteq> None \<and>
     connUser sc @ [0x40] @ remoteAddr sc \<in>
       dom (userConnections (case users reg name of None \<Rightarrow> newUser name | Some u \<Rightarrow> u))"
  then have c: "conn = Some sc" by blast
  from a cg_duplicate [where sc = sc and reg = reg and name = name]
  show "fst (createOrGetUser reg name conn) =
          Inl (DuplicateSession (connUser sc @ [0x40] @ remoteAddr sc))"
    "\<exists>u'. users (snd (createOrGetUser reg name conn)) name = Some u' \<and>
          userConnections u' =
            userConnections (case users reg name of None \<Rightarrow> newUser name | Some u \<Rightarrow> u)"
    "activeConnections (snd (createOrGetUser reg name conn)) = activeConnections reg"
    unfolding c makeConnectionDetailsString_def by blast+
next
  fix sc
  assume a: "conn = Some sc \<and> privilegeExt sc \<noteq> None \<and>
     connUser sc @ [0x40] @ remoteAddr sc \<notin>
       dom (userConnections (case users reg name of None \<Rightarrow> newUser name | Some u \<Rightarrow> u))"
  then have c: "conn = Some sc" by blast
  from a cg_attach [where sc = sc and reg = reg and name = name] obtain u'
    where r: "createOrGetUser reg name (Some sc) =
                (Inr (u', connUser sc @ [0x40] @ remoteAddr sc),
                 reg\<lparr>users := (users reg)(name \<mapsto> u'),
                     activeConnections :=
                       (activeConnections reg)(connUser sc @ [0x40] @ remoteAddr sc \<mapsto> True)\<rparr>)"
      and u: "userConnections u' =
                (userConnections (case users reg name of None \<Rightarrow> newUser name | Some u \<Rightarrow> u))
                  (connUser sc @ [0x40] @ remoteAddr sc \<mapsto>
                     \<lparr>serverConnection = sc,
                      ConnectionDetails = connUser sc @ [0x40] @ remoteAddr sc\<rparr>)"
        "username u' = username (case users reg name of None \<Rightarrow> newUser name | Some u \<Rightarrow> u)"
        "clients u' = clients (case users reg name of None \<Rightarrow> newUser name | Some u \<Rightarrow> u)"
    unfolding makeConnectionDetailsString_def by blast
  from r u
  show "\<exists>u'. fst (createOrGetUser reg name conn) =
               Inr (u', connUser sc @ [0x40] @ remoteAddr sc) \<and>
             users (snd (createOrGetUser reg name conn)) name = Some u' \<and>
             userConnections u' =
               (userConnections (case users reg name of None \<Rightarrow> newUser name | Some u \<Rightarrow> u))
                 (connUser sc @ [0x40] @ remoteAddr sc \<mapsto>
                    \<lparr>serverConnection = sc,
                     ConnectionDetails = connUser sc @ [0x40] @ remoteAddr sc\<rparr>) \<and>
             username u' = username (case users reg name of None \<Rightarrow> newUser name | Some u \<Rightarrow> u) \<and>
             clients u' = clients (case users reg name of None \<Rightarrow> newUser name | Some u \<Rightarrow> u)"
    unfolding c by (intro exI [of _ u']) simp
  from r
  show "activeConnections (snd (createOrGetUser reg name conn)) =
          (activeConnections reg)(connUser sc @ [0x40] @ remoteAddr sc \<mapsto> True)"
    unfolding c by simp
next
  fix d assume "fst (createOrGetUser reg name conn) = Inl (DuplicateSession d)"
  from cg_dup_only [OF this]
  show "\<exists>sc. conn = Some sc \<and> d = connUser sc @ [0x40] @ remoteAddr sc \<and>
          d \<in> dom (userConnections (case users reg name of None \<Rightarrow> newUser name | Some u \<Rightarrow> u))"
    unfolding makeConnectionDetailsString_def by auto
qed


lemma oneSession_eq:
  "oneSession =
     \<lparr>users = [str ''alice'' \<mapsto>
        \<lparr>userConnections = [str ''alice@1.2.3.4:1000'' \<mapsto>
             \<lparr>serverConnection = alice1, ConnectionDetails = str ''alice@1.2.3.4:1000''\<rparr>],
         username = str ''alice'', clients = Map.empty, privilege = Some 0\<rparr>],
      activeConnections = [str ''alice@1.2.3.4:1000'' \<mapsto> True],
      allClients = Map.empty, aliases = Map.empty\<rparr>"
  by (simp add: oneSession_def createOrGetUser_def emptyRegistry_def newUser_def Let_def
        makeConnectionDetailsString_def alice1_def Atoi_def isDigit_def str_def)


lemma twoSessions_eq:
  "twoSessions =
     \<lparr>users = [str ''alice'' \<mapsto>
        \<lparr>userConnections = [str ''alice@1.2.3.4:1000'' \<mapsto>
             \<lparr>serverConnection = alice1, ConnectionDetails = str ''alice@1.2.3.4:1000''\<rparr>,
             str ''alice@1.2.3.4:2000'' \<mapsto>
             \<lparr>serverConnection = alice2, ConnectionDetails = str ''alice@1.2.3.4:2000''\<rparr>],
         username = str ''alice'', clients = Map.empty, privilege = Some 0\<rparr>],
      activeConnections = [str ''alice@1.2.3.4:1000'' \<mapsto> True, str ''alice@1.2.3.4:2000'' \<mapsto> True],
      allClients = Map.empty, aliases = Map.empty\<rparr>"
  by (simp add: twoSessions_def oneSession_eq createOrGetUser_def Let_def
        makeConnectionDetailsString_def alice2_def Atoi_def isDigit_def str_def)


theorem createOrGetUser_session_witness:
  "fst (createOrGetUser emptyRegistry (str ''alice'') None) = Inr (newUser (str ''alice''), []) \<and>
   activeConnections (snd (createOrGetUser emptyRegistry (str ''alice'') None)) = Map.empty \<and>
   fst (createOrGetUser oneSession (str ''alice'') (Some alice1)) =
     Inl (DuplicateSession (str ''alice@1.2.3.4:1000'')) \<and>
   activeConnections (snd (createOrGetUser oneSession (str ''alice'') (Some alice1))) =
     [str ''alice@1.2.3.4:1000'' \<mapsto> True] \<and>
   (\<exists>u'. fst (createOrGetUser oneSession (str ''alice'') (Some alice2)) =
            Inr (u', str ''alice@1.2.3.4:2000'') \<and>
          users twoSessions (str ''alice'') = Some u' \<and>
          userConnections u' =
            [str ''alice@1.2.3.4:1000'' \<mapsto>
               \<lparr>serverConnection = alice1, ConnectionDetails = str ''alice@1.2.3.4:1000''\<rparr>,
             str ''alice@1.2.3.4:2000'' \<mapsto>
               \<lparr>serverConnection = alice2, ConnectionDetails = str ''alice@1.2.3.4:2000''\<rparr>]) \<and>
   activeConnections twoSessions =
     [str ''alice@1.2.3.4:1000'' \<mapsto> True, str ''alice@1.2.3.4:2000'' \<mapsto> True]"
proof -
  let ?u0 = "\<lparr>userConnections = [str ''alice@1.2.3.4:1000'' \<mapsto>
             \<lparr>serverConnection = alice1, ConnectionDetails = str ''alice@1.2.3.4:1000''\<rparr>],
         username = str ''alice'', clients = Map.empty, privilege = Some 0\<rparr>"
  have d1: "connUser alice1 @ [0x40] @ remoteAddr alice1 = str ''alice@1.2.3.4:1000''"
    by (simp add: alice1_def str_def)
  have d2: "connUser alice2 @ [0x40] @ remoteAddr alice2 = str ''alice@1.2.3.4:2000''"
    by (simp add: alice2_def str_def)
  have old: "(case users oneSession (str ''alice'') of None \<Rightarrow> newUser (str ''alice'')
              | Some u \<Rightarrow> u) = ?u0"
    by (simp add: oneSession_eq)
  have new: "(case users emptyRegistry (str ''alice'') of None \<Rightarrow> newUser (str ''alice'')
              | Some u \<Rightarrow> u) = newUser (str ''alice'')"
    by (simp add: emptyRegistry_def)
  have a0: "activeConnections emptyRegistry = Map.empty" by (simp add: emptyRegistry_def)
  have a1: "activeConnections oneSession = [str ''alice@1.2.3.4:1000'' \<mapsto> True]"
    by (simp add: oneSession_eq)
  have h0: "(None :: ServerConn option) = None" by simp
  have h1: "Some alice1 = Some alice1 \<and> privilegeExt alice1 \<noteq> None \<and>
            connUser alice1 @ [0x40] @ remoteAddr alice1 \<in> dom (userConnections ?u0)"
    unfolding d1 by (simp add: alice1_def)
  have h2: "Some alice2 = Some alice2 \<and> privilegeExt alice2 \<noteq> None \<and>
            connUser alice2 @ [0x40] @ remoteAddr alice2 \<notin> dom (userConnections ?u0)"
    unfolding d2 by (simp add: alice2_def str_def)
  note nil = createOrGetUser_session [where reg = emptyRegistry and name = "str ''alice''" and conn = None, unfolded Let_def new,
      THEN conjunct2, THEN conjunct2, THEN conjunct2, THEN conjunct2, THEN conjunct1,
      rule_format, OF h0]
  note dup = createOrGetUser_session [where reg = oneSession and name = "str ''alice''" and conn = "Some alice1",
      unfolded Let_def old,
      THEN conjunct2, THEN conjunct2, THEN conjunct2, THEN conjunct2, THEN conjunct2,
      THEN conjunct1, rule_format, OF h1]
  note att = createOrGetUser_session [where reg = oneSession and name = "str ''alice''" and conn = "Some alice2",
      unfolded Let_def old,
      THEN conjunct2, THEN conjunct2, THEN conjunct2, THEN conjunct2, THEN conjunct2,
      THEN conjunct2, THEN conjunct1, rule_format, OF h2]
  from nil have 1: "fst (createOrGetUser emptyRegistry (str ''alice'') None) =
      Inr (newUser (str ''alice''), [])"
    "activeConnections (snd (createOrGetUser emptyRegistry (str ''alice'') None)) = Map.empty"
    by (simp_all only: a0)
  from dup have 2: "fst (createOrGetUser oneSession (str ''alice'') (Some alice1)) =
     Inl (DuplicateSession (str ''alice@1.2.3.4:1000''))"
    "activeConnections (snd (createOrGetUser oneSession (str ''alice'') (Some alice1))) =
     [str ''alice@1.2.3.4:1000'' \<mapsto> True]"
    by (simp_all only: d1 a1)
  from att obtain u' where
    3: "fst (createOrGetUser oneSession (str ''alice'') (Some alice2)) =
            Inr (u', str ''alice@1.2.3.4:2000'')"
      "users twoSessions (str ''alice'') = Some u'"
      "userConnections u' =
            [str ''alice@1.2.3.4:1000'' \<mapsto>
               \<lparr>serverConnection = alice1, ConnectionDetails = str ''alice@1.2.3.4:1000''\<rparr>,
             str ''alice@1.2.3.4:2000'' \<mapsto>
               \<lparr>serverConnection = alice2, ConnectionDetails = str ''alice@1.2.3.4:2000''\<rparr>]"
    unfolding d2 twoSessions_def [symmetric] by auto
  from att have 4: "activeConnections twoSessions =
     [str ''alice@1.2.3.4:1000'' \<mapsto> True, str ''alice@1.2.3.4:2000'' \<mapsto> True]"
    unfolding d2 twoSessions_def [symmetric] a1 by simp
  from 1 2 3 4 show ?thesis by blast
qed

text \<open>
  Claim C2, refuted as stated. A user with two operator sessions and no controllee
  disconnects the first session: the user record is removed from the user map although
  the second session is still active (its key is still in the global liveness set).
\<close>

theorem DisconnectUser_drops_user_with_live_session:
  "users twoSessions (str ''alice'') \<noteq> None \<and>
   users (DisconnectUser twoSessions (Some alice1)) (str ''alice'') = None \<and>
   activeConnections (DisconnectUser twoSessions (Some alice1)) (str ''alice@1.2.3.4:2000'')
     = Some True"
  by (simp add: twoSessions_eq DisconnectUser_def Let_def makeConnectionDetailsString_def)
     (simp add: alice1_def str_def)

text \<open>
  Claim C2, amended. \<^verbatim>\<open>DisconnectUser(sshConn)\<close>, for a connection whose user has a
  record (stored under its own name), removes the key of the connection from the
  liveness set and from the sessions of the user, leaves every other user as it was, and
  keeps the record of the user in the map if and only if the user owns at least one
  controllee, whatever sessions remain.
\<close>

theorem DisconnectUser_keeps_owners_only:
  assumes "users reg (connUser sc) = Some u" and "username u = connUser sc"
  shows "(connUser sc \<in> dom (users (DisconnectUser reg (Some sc))) \<longleftrightarrow> clients u \<noteq> Map.empty) \<and>
         activeConnections (DisconnectUser reg (Some sc)) (makeConnectionDetailsString sc) = None \<and>
         (\<forall>u'. users (DisconnectUser reg (Some sc)) (connUser sc) = Some u' \<longrightarrow>
               u' = u\<lparr>userConnections := (userConnections u)(makeConnectionDetailsString sc := None)\<rparr>) \<and>
         (\<forall>k. k \<noteq> connUser sc \<longrightarrow> users (DisconnectUser reg (Some sc)) k = users reg k)"
  using assms by (auto simp: DisconnectUser_def Let_def)

theorem DisconnectUser_keeps_owners_only_witness:
  "users sharedAlias (connUser alice1) = Some ownerOfX \<and> username ownerOfX = connUser alice1 \<and>
   clients ownerOfX \<noteq> Map.empty \<and>
   connUser alice1 \<in> dom (users (DisconnectUser sharedAlias (Some alice1))) \<and>
   users twoSessions (connUser alice1) \<noteq> None \<and>
   connUser alice1 \<notin> dom (users (DisconnectUser twoSessions (Some alice1)))"
proof -
  have a: "users sharedAlias (connUser alice1) = Some ownerOfX"
    by (simp add: sharedAlias_def alice1_def str_def)
  have b: "username ownerOfX = connUser alice1" by (simp add: ownerOfX_def alice1_def)
  have c: "clients ownerOfX \<noteq> Map.empty" by (simp add: ownerOfX_def)
  let ?u = "\<lparr>userConnections = [str ''alice@1.2.3.4:1000'' \<mapsto>
             \<lparr>serverConnection = alice1, ConnectionDetails = str ''alice@1.2.3.4:1000''\<rparr>,
             str ''alice@1.2.3.4:2000'' \<mapsto>
             \<lparr>serverConnection = alice2, ConnectionDetails = str ''alice@1.2.3.4:2000''\<rparr>],
         username = str ''alice'', clients = Map.empty, privilege = Some 0\<rparr>"
  have d: "users twoSessions (connUser alice1) = Some ?u"
    by (simp add: twoSessions_eq) (simp add: alice1_def)
  have e: "username ?u = connUser alice1" by (simp add: alice1_def)
  from DisconnectUser_keeps_owners_only [OF a b] c
  have 1: "connUser alice1 \<in> dom (users (DisconnectUser sharedAlias (Some alice1)))" by blast
  from DisconnectUser_keeps_owners_only [OF d e]
  have 2: "connUser alice1 \<notin> dom (users (DisconnectUser twoSessions (Some alice1)))" by simp
  from a b c d 1 2 show ?thesis by simp
qed

text \<open>
  Claim C10. \<^verbatim>\<open>User.GetClient(identifier)\<close>, called by a user who is not an admin with an
  identifier that is no controllee ID but an alias, deletes from the global alias map
  every ID of that alias that the caller does not own: the registry after the call is
  the registry before it with the alias mapped to the caller's own IDs only, and every
  later lookup of the alias, by any user, runs on the pruned map.
\<close>

theorem GetClient_prunes_global_aliases:
  assumes "Privilege u \<noteq> AdminPermissions" and "allClients reg identifier = None"
    and "aliases reg identifier = Some ids"
  shows "snd (GetClient reg u identifier) =
           reg\<lparr>aliases := (aliases reg)(identifier \<mapsto> filter (\<lambda>id. id \<in> dom (clients u)) ids)\<rparr> \<and>
         (\<forall>v. GetClient (snd (GetClient reg u identifier)) v identifier =
              GetClient (reg\<lparr>aliases := (aliases reg)(identifier \<mapsto>
                           filter (\<lambda>id. id \<in> dom (clients u)) ids)\<rparr>) v identifier)"
proof -
  have "snd (GetClient reg u identifier) =
           reg\<lparr>aliases := (aliases reg)(identifier \<mapsto> filter (\<lambda>id. id \<in> dom (clients u)) ids)\<rparr>"
    using assms by (simp add: GetClient_def Let_def)
  then show ?thesis by simp
qed

theorem GetClient_prunes_global_aliases_witness:
  "Privilege ownerOfX \<noteq> AdminPermissions \<and> allClients sharedAlias (str ''web'') = None \<and>
   aliases sharedAlias (str ''web'') = Some [str ''X'', str ''Y''] \<and>
   fst (GetClient sharedAlias admin (str ''web'')) =
     Inl (Ambiguous 2 (str ''web'') [str ''X'', str ''Y'']) \<and>
   fst (GetClient sharedAlias ownerOfX (str ''web'')) = Inr (Some clientX) \<and>
   aliases (snd (GetClient sharedAlias ownerOfX (str ''web''))) (str ''web'') = Some [str ''X''] \<and>
   fst (GetClient (snd (GetClient sharedAlias ownerOfX (str ''web''))) admin (str ''web'')) =
     Inr (Some clientX)"
proof -
  have a: "Privilege ownerOfX \<noteq> AdminPermissions"
    by (simp add: Privilege_def ownerOfX_def AdminPermissions_def)
  have b: "allClients sharedAlias (str ''web'') = None"
    by (simp add: sharedAlias_def str_def)
  have c: "aliases sharedAlias (str ''web'') = Some [str ''X'', str ''Y'']"
    by (simp add: sharedAlias_def)
  have f: "filter (\<lambda>id. id \<in> dom (clients ownerOfX)) [str ''X'', str ''Y''] = [str ''X'']"
    by (simp add: ownerOfX_def str_def)
  note t = GetClient_prunes_global_aliases [OF a b c, unfolded f]
  have adm: "Privilege admin = AdminPermissions"
    by (simp add: Privilege_def admin_def AdminPermissions_def)
  have 1: "fst (GetClient sharedAlias admin (str ''web'')) =
     Inl (Ambiguous 2 (str ''web'') [str ''X'', str ''Y''])"
    using b c adm by (simp add: GetClient_def Let_def) (simp add: sharedAlias_def str_def)
  have 2: "fst (GetClient sharedAlias ownerOfX (str ''web'')) = Inr (Some clientX)"
    using a b c by (simp add: GetClient_def Let_def f) (simp add: ownerOfX_def str_def)
  have 3: "aliases (snd (GetClient sharedAlias ownerOfX (str ''web''))) (str ''web'') = Some [str ''X'']"
    by (simp add: t [THEN conjunct1])
  have 4: "fst (GetClient (snd (GetClient sharedAlias ownerOfX (str ''web''))) admin (str ''web'')) =
     Inr (Some clientX)"
  proof -
    have "GetClient (snd (GetClient sharedAlias ownerOfX (str ''web''))) admin (str ''web'') =
          GetClient (sharedAlias\<lparr>aliases := (aliases sharedAlias)(str ''web'' \<mapsto> [str ''X''])\<rparr>)
            admin (str ''web'')"
      using t by blast
    also have "fst \<dots> = Inr (Some clientX)"
      using adm by (simp add: GetClient_def Let_def sharedAlias_def str_def)
    finally show ?thesis .
  qed
  from a b c 1 2 3 4 show ?thesis by simp
qed


subsection \<open>The functions that only draw\<close>

lemma display_only_refl: "display_only t t"
  by (simp add: display_only_def)

lemma display_only_trans: "display_only t t' \<Longrightarrow> display_only t' t'' \<Longrightarrow> display_only t t''"
  unfolding display_only_def by (cases t, cases t', cases t'') simp

lemma display_only_queue: "display_only t (queue t d)"
  by (simp add: display_only_def queue_def)

lemma display_only_move: "display_only t (move t u d l r)"
  by (simp add: display_only_def move_def queue_def)

lemma display_only_clearLineToRight: "display_only t (clearLineToRight t)"
  by (simp add: clearLineToRight_def display_only_queue)

lemma display_only_moveCursorToPos: "moveCursorToPos t p = Some t' \<Longrightarrow> display_only t t'"
  by (auto simp: moveCursorToPos_def display_only_def move_def queue_def Let_def split: if_splits)

lemma display_only_advanceCursor: "advanceCursor t n = Some t' \<Longrightarrow> display_only t t'"
  by (auto simp: advanceCursor_def display_only_def Let_def split: if_splits)

lemma display_only_advance_queue:
  "advanceCursor (queue t d) n = Some t' \<Longrightarrow> display_only t t'"
  using display_only_queue display_only_advanceCursor by (rule display_only_trans)

lemma writeLine_step:
  assumes "writeLine t l = Some t'" and "l \<noteq> []"
  shows "\<exists>t1 l'. length l' < length l \<and> display_only t t1 \<and> writeLine t1 l' = Some t'"
proof -
  define w0 where "w0 = (if termWidth t - cursorX t = 0 then advanceCursor t 0 else Some t)"
  define todo where "todo = (\<lambda>t0::Terminal. if int (length l) > termWidth t0 - cursorX t0
                             then nat (termWidth t0 - cursorX t0) else length l)"
  have unfold: "writeLine t l =
     (case w0 of None \<Rightarrow> None
      | Some t0 \<Rightarrow> if termWidth t0 - cursorX t0 \<le> 0 then None
          else (case advanceCursor (queue t0 (take (todo t0) l)) (visualLength (take (todo t0) l)) of
                  None \<Rightarrow> None
                | Some t1 \<Rightarrow> writeLine t1 (drop (todo t0) l)))"
    by (subst writeLine.simps) (simp only: assms(2) if_False w0_def todo_def Let_def)
  from assms(1) unfold obtain t0 where t0: "w0 = Some t0" by (cases w0) simp_all
  have d0: "display_only t t0"
  proof (cases "termWidth t - cursorX t = 0")
    case True
    with t0 show ?thesis by (simp add: w0_def display_only_advanceCursor)
  next
    case False
    with t0 show ?thesis by (simp add: w0_def display_only_refl)
  qed
  from assms(1) unfold t0 have room: "\<not> termWidth t0 - cursorX t0 \<le> 0"
    by (auto split: if_splits)
  with assms(1) unfold t0 obtain t1
    where t1: "advanceCursor (queue t0 (take (todo t0) l)) (visualLength (take (todo t0) l)) = Some t1"
      and rec: "writeLine t1 (drop (todo t0) l) = Some t'"
    by (auto split: option.splits)
  have "0 < todo t0" using room assms(2) by (auto simp: todo_def)
  then have "length (drop (todo t0) l) < length l" using assms(2) by auto
  moreover have "display_only t t1"
    using d0 display_only_advance_queue [OF t1] by (rule display_only_trans)
  ultimately show ?thesis using rec by blast
qed

lemma display_only_writeLine: "writeLine t l = Some t' \<Longrightarrow> display_only t t'"
proof (induction "length l" arbitrary: t l rule: less_induct)
  case less
  show ?case
  proof (cases "l = []")
    case True
    with less.prems show ?thesis by (simp add: writeLine.simps display_only_refl)
  next
    case False
    from writeLine_step [OF less.prems False] obtain t1 l'
      where "length l' < length l" "display_only t t1" "writeLine t1 l' = Some t'" by blast
    with less.hyps [of l' t1] show ?thesis by (blast intro: display_only_trans)
  qed
qed

lemma display_only_writeSpaces: "writeSpaces n t = Some t' \<Longrightarrow> display_only t t'"
proof (induction n arbitrary: t)
  case 0
  then show ?case by (simp add: display_only_refl)
next
  case (Suc n)
  then show ?case
    by (auto split: option.splits dest!: display_only_writeLine intro: display_only_trans)
qed

lemma display_only_spacesAdvance: "spacesAdvance n t = Some t' \<Longrightarrow> display_only t t'"
proof (induction n arbitrary: t)
  case 0
  then show ?case by (simp add: display_only_refl)
next
  case (Suc n)
  then show ?case
    by (auto split: option.splits dest!: display_only_advance_queue intro: display_only_trans)
qed

lemma display_only_fields:
  assumes "display_only t t'"
  shows "line t' = line t" "pos t' = pos t" "history t' = history t" "echo t' = echo t"
    "pasteActive t' = pasteActive t" "termWidth t' = termWidth t" "prompt t' = prompt t"
    "AutoCompleteCallback t' = AutoCompleteCallback t" "historyIndex t' = historyIndex t"
    "written t' = written t" "remainder t' = remainder t"
  using assms unfolding display_only_def by (cases t; cases t'; simp)+

subsection \<open>The length of the line\<close>

lemma line_writeLine: "writeLine t l = Some t' \<Longrightarrow> line t' = line t"
  by (drule display_only_writeLine) (rule display_only_fields)

lemma line_moveCursorToPos: "moveCursorToPos t p = Some t' \<Longrightarrow> line t' = line t"
  by (drule display_only_moveCursorToPos) (rule display_only_fields)

lemma line_addKeyToLine:
  assumes "addKeyToLine t key = Some t'"
  shows "line t' = take (pos t) (line t) @ [key] @ drop (pos t) (line t)"
  using assms
  by (auto simp: addKeyToLine_def Let_def bind_eq_Some_conv split: if_splits
           dest!: line_writeLine line_moveCursorToPos)

lemma length_addKeyToLine:
  "addKeyToLine t key = Some t' \<Longrightarrow> length (line t') = Suc (length (line t))"
  by (frule line_addKeyToLine) (auto simp: addKeyToLine_def split: if_splits)

lemma printable_not_special:
  assumes "isPrintable key" and "key \<noteq> keyBackspace"
  shows "\<not> resetsAutoComplete key" "key \<noteq> keyDel" "key \<noteq> keyAltLeft" "key \<noteq> keyAltRight"
    "key \<noteq> keyLeft" "key \<noteq> keyRight" "key \<noteq> keyHome" "key \<noteq> keyEnd" "key \<noteq> keyUp"
    "key \<noteq> keyDown" "key \<noteq> keyEnter" "key \<noteq> keyDeleteWord" "key \<noteq> keyDeleteLine"
    "key \<noteq> keyCtrlD" "key \<noteq> keyCtrlU" "key \<noteq> keyClearScreen" "key \<noteq> keyCtrlC" "key \<noteq> 0x09"
  using assms by (auto simp: isPrintable_def resetsAutoComplete_def key_defs)

lemma handleKey_printable:
  assumes "\<not> pasteActive t" and "isPrintable key" and "key \<noteq> keyBackspace"
  shows "handleKey ext t key = defaultKey ext t key"
  using assms(1,3) printable_not_special [OF assms(2,3)]
  by (simp add: handleKey_def)

lemma defaultKey_printable:
  assumes "isPrintable key" and "key \<noteq> keyBackspace" and "pos t \<le> length (line t)"
  shows "defaultKey ext t key =
           (let t1 = (case AutoCompleteCallback t of NoCallback \<Rightarrow> t
                      | DefaultAutoComplete \<Rightarrow> resetAutoComplete t)
            in if length (line t) = maxLineLength then Some (t1, [], False)
               else map_option (\<lambda>t'. (t', [], False)) (addKeyToLine t1 key))"
  using assms printable_not_special(18) [OF assms(1,2)]
  by (cases "AutoCompleteCallback t")
     (simp_all add: defaultKey_def defaultAutoComplete_def resetAutoComplete_def Let_def)

subsection \<open>Drawing does not panic on a well-formed terminal\<close>

lemma writeLine_Nil: "writeLine t [] = Some t"
  by (simp add: writeLine.simps)

lemma sdiv_nonneg: "0 \<le> a \<Longrightarrow> 0 < b \<Longrightarrow> a sdiv b = a div (b::int)"
  by (simp add: signed_divide_int_def sgn_if)

lemma smod_nonneg: "0 \<le> a \<Longrightarrow> 0 < b \<Longrightarrow> a smod b = a mod (b::int)"
  by (simp add: signed_modulo_int_def sgn_if)

lemma visualLengthFrom_nonneg: "0 \<le> n \<Longrightarrow> 0 \<le> visualLengthFrom e n rs"
  by (induction e n rs rule: visualLengthFrom.induct) auto

lemma visualLength_nonneg: "0 \<le> visualLength rs"
  by (simp add: visualLength_def visualLengthFrom_nonneg)

lemma wf_cursor_advanceCursor:
  assumes "wf_cursor t" and "0 \<le> n"
  shows "\<exists>t'. advanceCursor t n = Some t' \<and> wf_cursor t'"
  using assms
  by (auto simp: advanceCursor_def wf_cursor_def Let_def smod_nonneg)

lemma wf_cursor_queue: "wf_cursor (queue t d) = wf_cursor t"
  by (simp add: wf_cursor_def queue_def)

lemma wf_cursor_writeLine: "wf_cursor t \<Longrightarrow> \<exists>t'. writeLine t l = Some t' \<and> wf_cursor t'"
proof (induction "length l" arbitrary: t l rule: less_induct)
  case less
  show ?case
  proof (cases "l = []")
    case True
    with less.prems show ?thesis by (simp add: writeLine_Nil)
  next
    case False
    from less.prems have room: "0 < termWidth t - cursorX t" by (simp add: wf_cursor_def)
    define todo where "todo = (if int (length l) > termWidth t - cursorX t
                               then nat (termWidth t - cursorX t) else length l)"
    have todo: "0 < todo" using room False by (auto simp: todo_def)
    from wf_cursor_advanceCursor [of "queue t (take todo l)" "visualLength (take todo l)"]
      less.prems visualLength_nonneg
    obtain t1 where t1: "advanceCursor (queue t (take todo l)) (visualLength (take todo l)) = Some t1"
      and w1: "wf_cursor t1" by (auto simp: wf_cursor_queue)
    have "writeLine t l = writeLine t1 (drop todo l)"
      using False room t1 by (subst writeLine.simps) (simp add: Let_def todo_def [symmetric])
    moreover have "length (drop todo l) < length l" using todo False by simp
    ultimately show ?thesis using less.hyps [of "drop todo l" t1] w1 by simp
  qed
qed

lemma wf_cursor_moveCursorToPos:
  assumes "wf_cursor t"
  shows "\<exists>t'. moveCursorToPos t p = Some t' \<and> wf_cursor t'"
proof -
  have "0 \<le> visualLength (prompt t) + int p" using visualLength_nonneg [of "prompt t"] by simp
  with assms show ?thesis
    by (auto simp: moveCursorToPos_def wf_cursor_def Let_def move_def queue_def smod_nonneg)
qed

lemma wf_cursor_fields:
  "wf_cursor (t\<lparr>line := l\<rparr>) = wf_cursor t" "wf_cursor (t\<lparr>pos := p\<rparr>) = wf_cursor t"
  "wf_cursor (resetAutoComplete t) = wf_cursor t"
  by (simp_all add: wf_cursor_def resetAutoComplete_def)

lemma addKeyToLine_succeeds:
  assumes "wf_terminal t"
  shows "\<exists>t'. addKeyToLine t key = Some t' \<and> wf_terminal t' \<and>
              line t' = take (pos t) (line t) @ [key] @ drop (pos t) (line t) \<and> pos t' = pos t + 1"
proof -
  from assms have c: "wf_cursor t" and p: "pos t \<le> length (line t)"
    by (simp_all add: wf_terminal_def wf_cursor_def)
  define t1 where "t1 = t\<lparr>line := take (pos t) (line t) @ [key] @ drop (pos t) (line t)\<rparr>"
  have c1: "wf_cursor t1" using c by (simp add: t1_def wf_cursor_fields)
  have "\<exists>t2. (if echo t1 then writeLine t1 (drop (pos t1) (line t1)) else Some t1) = Some t2 \<and>
             wf_cursor t2 \<and> display_only t1 t2"
    using wf_cursor_writeLine [OF c1] c1
    by (auto simp: display_only_refl dest: display_only_writeLine)
  then obtain t2 where t2: "(if echo t1 then writeLine t1 (drop (pos t1) (line t1)) else Some t1) = Some t2"
    and c2: "wf_cursor t2" and d2: "display_only t1 t2" by blast
  have c2': "wf_cursor (t2\<lparr>pos := pos t2 + 1\<rparr>)" using c2 by (simp add: wf_cursor_fields)
  from wf_cursor_moveCursorToPos [OF c2'] obtain t3
    where t3: "moveCursorToPos (t2\<lparr>pos := pos t2 + 1\<rparr>) (pos t2 + 1) = Some t3"
      and c3: "wf_cursor t3" by blast
  have d3: "display_only (t2\<lparr>pos := pos t2 + 1\<rparr>) t3" using t3 by (rule display_only_moveCursorToPos)
  have np: "\<not> pos t > length (line t)" using p by simp
  have "addKeyToLine t key =
          (if echo t1 then writeLine t1 (drop (pos t1) (line t1)) else Some t1) \<bind>
          (\<lambda>t2. moveCursorToPos (t2\<lparr>pos := pos t2 + 1\<rparr>) (pos t2 + 1))"
    unfolding addKeyToLine_def t1_def by (simp only: np if_False Let_def)
  then have r: "addKeyToLine t key = Some t3"
    by (simp only: t2 t3 bind.bind_lunit)
  have l: "line t3 = line t1" "pos t3 = pos t1 + 1"
    using display_only_fields(1,2) [OF d3] display_only_fields(1,2) [OF d2] by simp_all
  have "wf_terminal t3"
    using c3 l p by (simp add: wf_terminal_def wf_cursor_def t1_def)
  with r l show ?thesis by (simp add: t1_def)
qed

lemma wf_terminal_resetAutoComplete: "wf_terminal (resetAutoComplete t) = wf_terminal t"
  by (simp add: wf_terminal_def resetAutoComplete_def)

lemma handleKey_paste:
  assumes "pasteActive t" and "key \<noteq> keyEnter" and "wf_terminal t"
  shows "\<exists>t'. handleKey ext t key = Some (t', [], False) \<and> wf_terminal t' \<and>
              line t' = take (pos t) (line t) @ [key] @ drop (pos t) (line t)"
proof -
  have w: "wf_terminal (resetAutoComplete t)"
    using assms(3) by (simp add: wf_terminal_resetAutoComplete)
  from addKeyToLine_succeeds [OF w, of key] obtain t'
    where "addKeyToLine (resetAutoComplete t) key = Some t'" and "wf_terminal t'"
      and "line t' = take (pos t) (line t) @ [key] @ drop (pos t) (line t)"
    by (auto simp: resetAutoComplete_def)
  with assms(1,2) show ?thesis by (simp add: handleKey_def noLine_def)
qed

lemma handleKey_typed:
  assumes "\<not> pasteActive t" and "isPrintable key" and "key \<noteq> keyBackspace" and "wf_terminal t"
    and "length (line t) \<noteq> maxLineLength"
  shows "\<exists>t'. handleKey ext t key = Some (t', [], False) \<and> wf_terminal t' \<and>
              line t' = take (pos t) (line t) @ [key] @ drop (pos t) (line t)"
proof -
  define t1 where "t1 = (case AutoCompleteCallback t of NoCallback \<Rightarrow> t
                         | DefaultAutoComplete \<Rightarrow> resetAutoComplete t)"
  have w: "wf_terminal t1"
    using assms(4) by (cases "AutoCompleteCallback t") (simp_all add: t1_def wf_terminal_resetAutoComplete)
  have l: "line t1 = line t" "pos t1 = pos t"
    by (cases "AutoCompleteCallback t"; simp add: t1_def resetAutoComplete_def)+
  from assms(4) have p: "pos t \<le> length (line t)" by (simp add: wf_terminal_def)
  have "handleKey ext t key = map_option (\<lambda>t'. (t', [], False)) (addKeyToLine t1 key)"
    using assms(5)
    by (simp add: handleKey_printable [OF assms(1-3)] defaultKey_printable [OF assms(2,3) p]
          t1_def [symmetric] Let_def)
  with addKeyToLine_succeeds [OF w, of key] l show ?thesis by auto
qed

lemma handleKey_typed_full:
  assumes "\<not> pasteActive t" and "isPrintable key" and "key \<noteq> keyBackspace" and "wf_terminal t"
    and "length (line t) = maxLineLength"
  shows "\<exists>t'. handleKey ext t key = Some (t', [], False) \<and> line t' = line t \<and> pos t' = pos t \<and>
            outBuf t' = outBuf t"
proof -
  from assms have "handleKey ext t key =
      Some (case AutoCompleteCallback t of NoCallback \<Rightarrow> t
            | DefaultAutoComplete \<Rightarrow> resetAutoComplete t, [], False)"
    by (simp add: handleKey_printable defaultKey_printable Let_def wf_terminal_def)
  then show ?thesis
    by (cases "AutoCompleteCallback t") (simp_all add: resetAutoComplete_def)
qed

text \<open>
  Claim C3, at the failing input. The line holds 4096 times the letter \<^verbatim>\<open>a\<close>, with the
  cursor at its end. Outside a bracketed paste the key \<^verbatim>\<open>a\<close> is discarded and the line is
  unchanged, as the claim says. Inside a bracketed paste \<^verbatim>\<open>handleKey\<close> inserts the same key
  without the test of the length: the line then holds 4097 code points. After that the
  test of the typed keys, which is \<^verbatim>\<open>len(t.line) == maxLineLength\<close>, does not hold any more,
  so a key typed after the paste is inserted too and the line holds 4098 code points.
  This is so whatever the parser is.
\<close>

theorem paste_exceeds_line_limit:
  "length (line fullLine) = 4096 \<and>
   map_option (\<lambda>(t', l, ok). (line t' = line fullLine, l, ok)) (handleKey ext fullLine 0x61) =
     Some (True, [], False) \<and>
   length (line fullPaste) = 4096 \<and>
   map_option (\<lambda>(t', l, ok). (length (line t'), l, ok)) (handleKey ext fullPaste 0x61) =
     Some (4097, [], False) \<and>
   map_option (\<lambda>(t', l, ok). (length (line t'), l, ok))
     (Option.bind (handleKey ext fullPaste 0x61)
        (\<lambda>(t', l, ok). handleKey ext (t'\<lparr>pasteActive := False\<rparr>) 0x61)) =
     Some (4098, [], False)"
proof -
  have len: "length (line fullLine) = 4096" "length (line fullPaste) = 4096"
    by (simp_all add: fullPaste_def fullLine_def)
  have k: "(0x61 :: rune) \<noteq> keyEnter" "isPrintable 0x61" "(0x61 :: rune) \<noteq> keyBackspace"
    by (simp_all add: keyEnter_def isPrintable_def keyBackspace_def)
  have w: "wf_terminal fullLine" "wf_terminal fullPaste"
    by (simp_all add: wf_terminal_def fullPaste_def fullLine_def NewTerminal_def)
  have p: "\<not> pasteActive fullLine" "pasteActive fullPaste"
    by (simp_all add: fullPaste_def fullLine_def NewTerminal_def)
  from handleKey_typed_full [OF p(1) k(2,3) w(1), of ext] len
  have 1: "map_option (\<lambda>(t', l, ok). (line t' = line fullLine, l, ok)) (handleKey ext fullLine 0x61) =
     Some (True, [], False)"
    by (auto simp: maxLineLength_def)
  from handleKey_paste [OF p(2) k(1) w(2), of ext] obtain t'
    where r: "handleKey ext fullPaste 0x61 = Some (t', [], False)" and w': "wf_terminal t'"
      and l: "line t' = take (pos fullPaste) (line fullPaste) @ [0x61] @ drop (pos fullPaste) (line fullPaste)"
    by blast
  from l len have l': "length (line t') = 4097" by simp
  have "\<not> pasteActive (t'\<lparr>pasteActive := False\<rparr>)" "wf_terminal (t'\<lparr>pasteActive := False\<rparr>)"
    "length (line (t'\<lparr>pasteActive := False\<rparr>)) \<noteq> maxLineLength"
    using w' l' by (simp_all add: wf_terminal_def maxLineLength_def)
  from handleKey_typed [OF this(1) k(2,3) this(2,3), of ext] obtain t''
    where r': "handleKey ext (t'\<lparr>pasteActive := False\<rparr>) 0x61 = Some (t'', [], False)"
      and l'': "line t'' = take (pos t') (line t') @ [0x61] @ drop (pos t') (line t')"
    by auto
  from w' have "pos t' \<le> length (line t')" by (simp add: wf_terminal_def)
  with l'' l' have "length (line t'') = 4098" by simp
  with 1 len r l' r' show ?thesis by simp
qed

subsection \<open>The dispatcher and the paste indicator\<close>

lemma dispatch_returns_EOF_only: "dispatch ext t l = Some (Some err, t') \<Longrightarrow> err = io_EOF"
  by (auto simp: dispatch_def Let_def bind_eq_Some_conv split: option.splits if_splits)

lemma Run_prints_handler_error_and_goes_on:
  "(case Run 3 specExternals dispatcherTerminal failThenQuit of (r, t, s) \<Rightarrow> (r, written t)) =
     (Exited io_EOF, str ''> fail'' @ [0x0D, 0x0A] @ str ''boom'' @ [0x0D, 0x0A] @
                     str ''> quit'' @ [0x0D, 0x0A])"
  by code_simp

text \<open>
  Claim C1, at the failing input. The operator pastes \<^verbatim>\<open>help\<close> and a carriage return
  between the paste brackets, on a terminal where \<^verbatim>\<open>help\<close> is a registered command.
  \<^verbatim>\<open>ReadLine\<close> returns the line \<^verbatim>\<open>help\<close> together with \<^verbatim>\<open>ErrPasteIndicator\<close>, and \<^verbatim>\<open>Run\<close>
  returns that error in its first round, whatever the parser is: the loop ends on an
  error that is not the end of the input, and the line is not dispatched.
\<close>

theorem Run_exits_on_paste_indicator:
  "fst (ReadLine ext scenarioTerminal pastedHelp) = Line (str ''help'') (Some ErrPasteIndicator) \<and>
   fst (Run (Suc n) ext scenarioTerminal pastedHelp) = Exited ErrPasteIndicator"
  by code_simp

subsection \<open>The history is written by \<^verbatim>\<open>readLine\<close> only\<close>

lemma trimRight_nonblank: "trimRight s \<noteq> [] \<Longrightarrow> nonblank (trimRight s)"
proof (induction s rule: trimRight.induct)
  case (1 s)
  show ?case
  proof (cases "s = []")
    case True
    with "1.prems" show ?thesis by (simp add: trimRight.simps)
  next
    case False
    show ?thesis
    proof (cases "IsSpace (fst (DecodeLastRune s))")
      case True
      with False have eq: "trimRight s = trimRight (take (length s - snd (DecodeLastRune s)) s)"
        by (subst trimRight.simps) simp
      with "1.IH" [OF False True] "1.prems" show ?thesis by simp
    next
      case sp: False
      with False have "trimRight s = s" by (subst trimRight.simps) simp
      with False sp show ?thesis by (simp add: nonblank_def)
    qed
  qed
qed

lemma TrimSpace_nonblank: "TrimSpace l \<noteq> [] \<Longrightarrow> nonblank (TrimSpace l)"
  unfolding TrimSpace_def by (rule trimRight_nonblank)

lemma history_writeLine: "writeLine t l = Some t' \<Longrightarrow> history t' = history t"
  by (drule display_only_writeLine) (rule display_only_fields)

lemma history_moveCursorToPos: "moveCursorToPos t p = Some t' \<Longrightarrow> history t' = history t"
  by (drule display_only_moveCursorToPos) (rule display_only_fields)

lemma history_advanceCursor: "advanceCursor t n = Some t' \<Longrightarrow> history t' = history t"
  by (drule display_only_advanceCursor) (rule display_only_fields)

lemma history_writeSpaces: "writeSpaces n t = Some t' \<Longrightarrow> history t' = history t"
  by (drule display_only_writeSpaces) (rule display_only_fields)

lemma history_spacesAdvance: "spacesAdvance n t = Some t' \<Longrightarrow> history t' = history t"
  by (drule display_only_spacesAdvance) (rule display_only_fields)

lemmas history_draw =
  history_writeLine history_moveCursorToPos history_advanceCursor history_writeSpaces
  history_spacesAdvance

lemma history_setLine: "setLine t l p = Some t' \<Longrightarrow> history t' = history t"
  by (auto simp: setLine_def bind_eq_Some_conv split: if_splits dest!: history_draw)

lemma history_eraseNPreviousChars: "eraseNPreviousChars t n = Some t' \<Longrightarrow> history t' = history t"
  by (auto simp: eraseNPreviousChars_def Let_def bind_eq_Some_conv queue_def
           split: if_splits dest!: history_draw)

lemma history_addKeyToLine: "addKeyToLine t k = Some t' \<Longrightarrow> history t' = history t"
  by (auto simp: addKeyToLine_def Let_def bind_eq_Some_conv split: if_splits dest!: history_draw)

lemma history_historyUp: "historyUp t = Some t' \<Longrightarrow> history t' = history t"
  by (auto simp: historyUp_def Let_def split: sum.splits prod.splits if_splits
           dest!: history_setLine)

lemma history_historyDown: "historyDown t = Some t' \<Longrightarrow> history t' = history t"
  by (auto simp: historyDown_def Let_def bind_eq_Some_conv split: sum.splits prod.splits if_splits
           dest!: history_setLine)

lemma history_defaultAutoComplete:
  "defaultAutoComplete ext t l p k = Some (t', r) \<Longrightarrow> history t' = history t"
  by (auto simp: defaultAutoComplete_def Let_def bind_eq_Some_conv resetAutoComplete_def
           startAutoComplete_def split: if_splits prod.splits option.splits)

lemma history_defaultKey: "defaultKey ext t k = Some (t', r) \<Longrightarrow> history t' = history t"
  by (auto simp: defaultKey_def split: callback.splits option.splits prod.splits if_splits
           dest!: history_defaultAutoComplete history_setLine history_addKeyToLine)

lemma history_handleKey: "handleKey ext t k = Some (t', r) \<Longrightarrow> history t' = history t"
  unfolding handleKey_def noLine_def Let_def
  by (auto simp: bind_eq_Some_conv resetAutoComplete_def queue_def
           split: if_splits
           dest!: history_addKeyToLine history_eraseNPreviousChars history_moveCursorToPos
                  history_historyUp history_historyDown history_spacesAdvance
                  history_advanceCursor history_setLine history_defaultKey)


lemma history_keyLoop:
  "kl_state (keyLoop ext t lp rest) = Some t' \<Longrightarrow> history t' = history t"
proof (induction "length rest" arbitrary: t lp rest rule: less_induct)
  case less
  have rec: "history t' = history t1"
    if "kl_state (keyLoop ext t1 lp1 r) = Some t'" and "length r < length rest" for r t1 lp1
    using less.hyps [of r t1 lp1] that by blast
  show ?case
  proof (cases "bytesToKey rest (pasteActive t)")
    case (Inl e)
    with less.prems show ?thesis by (simp add: keyLoop.simps [of ext t lp rest])
  next
    case (Inr kr)
    obtain key r where kr: "kr = (key, r)" by (cases kr)
    note b = Inr [unfolded kr]
    have sh: "key \<noteq> RuneError \<Longrightarrow> length r < length rest"
      using bytesToKey_consumes [OF b] .
    from less.prems b sh show ?thesis
      apply (subst (asm) keyLoop.simps)
      apply (auto split: if_splits option.splits prod.splits dest!: rec history_handleKey)
      done
  qed
qed

lemma history_keyLoop_results:
  "keyLoop ext t lp rest = KBreak t' lp' rest' \<Longrightarrow> history t' = history t"
  "keyLoop ext t lp rest = KLine t' lp' rest' l \<Longrightarrow> history t' = history t"
  "keyLoop ext t lp rest = KCtrlD t' \<Longrightarrow> history t' = history t"
  using history_keyLoop [of ext t lp rest t'] by simp_all

lemma Add_inv: "ring_inv s hist \<Longrightarrow> \<exists>s'. Add s a = Inr s' \<and> ring_inv s' (a # hist)"
proof (cases "entries s = []")
  case True
  assume "ring_inv s hist"
  with True have "s = emptyRing" "hist = []" by (simp_all add: ring_inv_def)
  then show ?thesis using Add_empty [of a] by simp
next
  case False
  assume "ring_inv s hist"
  then show ?thesis using False by (rule Add_step)
qed

lemma clean_Add:
  assumes "history_clean h" and "nonblank a"
  shows "\<exists>h'. Add h a = Inr h' \<and> history_clean h'"
proof -
  from assms(1) obtain hist where h: "ring_inv h hist" "\<forall>e \<in> set hist. nonblank e"
    by (auto simp: history_clean_def)
  from Add_inv [OF h(1)] obtain h' where "Add h a = Inr h'" "ring_inv h' (a # hist)" by blast
  with h(2) assms(2) show ?thesis
    by (auto simp: history_clean_def intro!: exI [of _ "a # hist"])
qed

lemma clean_commitLine:
  assumes "history_clean (history t)" and "commitLine t lp l = (r, t')"
  shows "history_clean (history t')"
proof (cases "echo t \<and> TrimSpace l \<noteq> []")
  case True
  then have "nonblank (TrimSpace l)" by (simp add: TrimSpace_nonblank)
  from clean_Add [OF assms(1) this] obtain h'
    where "Add (history t) (TrimSpace l) = Inr h'" "history_clean h'" by blast
  with assms(2) True show ?thesis by (auto simp: commitLine_def Let_def)
next
  case False
  with assms show ?thesis by (auto simp: commitLine_def Let_def split: if_splits)
qed

lemma history_flush: "history (flush t) = history t"
  by (simp add: flush_def)

lemma clean_readLoop:
  "history_clean (history t) \<Longrightarrow> readLoop ext t lp script = (r, t', s') \<Longrightarrow>
   history_clean (history t')"
proof (induction script arbitrary: t lp)
  case Nil
  show ?case
  proof (cases "keyLoop ext t lp (remainder t)")
    case (KBreak t1 lp1 rest)
    with Nil.prems history_keyLoop_results(1) [OF KBreak] show ?thesis
      by (subst (asm) readLoop.simps) (auto simp: Let_def history_flush)
  next
    case (KLine t1 lp1 rest l)
    obtain r1 t2 where c: "commitLine (flush (t1\<lparr>remainder := take 256 rest\<rparr>)) lp1 l = (r1, t2)"
      by (cases "commitLine (flush (t1\<lparr>remainder := take 256 rest\<rparr>)) lp1 l")
    have "history_clean (history (flush (t1\<lparr>remainder := take 256 rest\<rparr>)))"
      using Nil.prems(1) history_keyLoop_results(2) [OF KLine] by (simp add: history_flush)
    from clean_commitLine [OF this c] Nil.prems(2) KLine c show ?thesis
      by (subst (asm) readLoop.simps) simp
  next
    case (KCtrlD t1)
    with Nil.prems history_keyLoop_results(3) [OF KCtrlD] show ?thesis
      by (subst (asm) readLoop.simps) auto
  next
    case KPanic
    with Nil.prems show ?thesis by (subst (asm) readLoop.simps) auto
  qed
next
  case (Cons x script)
  show ?case
  proof (cases "keyLoop ext t lp (remainder t)")
    case (KBreak t1 lp1 rest)
    define t2 where "t2 = flush (t1\<lparr>remainder := take 256 rest\<rparr>)"
    have h2: "history_clean (history t2)"
      using Cons.prems(1) history_keyLoop_results(1) [OF KBreak] by (simp add: t2_def history_flush)
    show ?thesis
    proof (cases x)
      case (ReadError e)
      with Cons.prems(2) KBreak h2 show ?thesis
        by (subst (asm) readLoop.simps) (auto simp: Let_def t2_def)
    next
      case (ReadBytes bs)
      define t3 where "t3 = t2\<lparr>remainder := remainder t2 @ take (256 - length (remainder t2)) bs\<rparr>"
      have h3: "history_clean (history t3)" using h2 by (simp add: t3_def)
      from Cons.prems(2) KBreak ReadBytes have "readLoop ext t3 lp1 script = (r, t', s')"
        by (subst (asm) readLoop.simps) (simp add: Let_def t2_def t3_def)
      with h3 show ?thesis by (rule Cons.IH)
    qed
  next
    case (KLine t1 lp1 rest l)
    obtain r1 t2 where c: "commitLine (flush (t1\<lparr>remainder := take 256 rest\<rparr>)) lp1 l = (r1, t2)"
      by (cases "commitLine (flush (t1\<lparr>remainder := take 256 rest\<rparr>)) lp1 l")
    have "history_clean (history (flush (t1\<lparr>remainder := take 256 rest\<rparr>)))"
      using Cons.prems(1) history_keyLoop_results(2) [OF KLine] by (simp add: history_flush)
    from clean_commitLine [OF this c] Cons.prems(2) KLine c show ?thesis
      by (subst (asm) readLoop.simps) simp
  next
    case (KCtrlD t1)
    with Cons.prems history_keyLoop_results(3) [OF KCtrlD] show ?thesis
      by (subst (asm) readLoop.simps) auto
  next
    case KPanic
    with Cons.prems show ?thesis by (subst (asm) readLoop.simps) auto
  qed
qed

lemma clean_readLine:
  assumes "history_clean (history t)" and "readLine ext t script = (r, t', s')"
  shows "history_clean (history t')"
proof -
  define w where "w = (if cursorX t = 0 \<and> cursorY t = 0
            then map_option flush (writeLine t (prompt t)) else Some t)"
  show ?thesis
  proof (cases w)
    case None
    with assms show ?thesis by (simp add: readLine_def w_def [symmetric])
  next
    case (Some t1)
    then have "history t1 = history t"
      by (auto simp: w_def history_flush split: if_splits dest: history_writeLine)
    with assms(1) have c1: "history_clean (history t1)" by simp
    show ?thesis
    proof (cases "rawOverflow t1")
      case None
      with assms(2) Some have "readLoop ext t1 (pasteActive t1) script = (r, t', s')"
        by (simp add: readLine_def w_def [symmetric])
      with c1 show ?thesis by (rule clean_readLoop)
    next
      case ro: (Some d)
      show ?thesis
      proof (cases d)
        case None
        with assms(2) Some ro c1 show ?thesis by (auto simp: readLine_def w_def [symmetric])
      next
        case (Some data)
        with assms(2) \<open>w = Some t1\<close> ro
        have "readLoop ext (t1\<lparr>remainder := take 256 data, rawOverflow := None\<rparr>)
                (pasteActive t1) script = (r, t', s')"
          by (simp add: readLine_def w_def [symmetric])
        moreover have "history_clean (history (t1\<lparr>remainder := take 256 data, rawOverflow := None\<rparr>))"
          using c1 by simp
        ultimately show ?thesis by (rule clean_readLoop [rotated])
      qed
    qed
  qed
qed

lemma clean_ReadLines:
  "history_clean (history t) \<Longrightarrow> ReadLines n ext t script = (rs, t', s') \<Longrightarrow>
   history_clean (history t')"
proof (induction n arbitrary: t script rs t' s')
  case 0
  then show ?case by simp
next
  case (Suc n)
  obtain r t1 s1 where 1: "ReadLine ext t script = (r, t1, s1)" by (cases "ReadLine ext t script")
  obtain rs2 t2 s2 where 2: "ReadLines n ext t1 s1 = (rs2, t2, s2)"
    by (cases "ReadLines n ext t1 s1")
  from 1 Suc.prems(1) have "history_clean (history t1)"
    unfolding ReadLine_def by (rule clean_readLine [rotated])
  from Suc.IH [OF this 2] Suc.prems(2) 1 2 show ?case by simp
qed

lemma clean_entries:
  assumes "history_clean h" and "0 \<le> k" and "NthPreviousEntry h k = Inr (e, True)"
  shows "nonblank e"
proof -
  from assms(1) obtain hist where h: "ring_inv h hist" "\<forall>e \<in> set hist. nonblank e"
    by (auto simp: history_clean_def)
  from Nth_inv [OF h(1) assms(2)] assms(3)
  have "k < int (min (length hist) 100)" and "e = hist ! nat k"
    by (auto split: if_splits)
  then have "e \<in> set hist" using assms(2) by simp
  with h(2) show ?thesis by blast
qed

text \<open>
  Claim C8. After any number of \<^verbatim>\<open>ReadLine\<close> calls on a terminal whose history was clean
  (the history of a new terminal is empty, hence clean), the history is clean: every
  entry that \<^verbatim>\<open>NthPreviousEntry\<close> can return is not empty and ends with a character that is
  not white space, so it holds a character that is not white space. The entries are
  the committed lines after \<^verbatim>\<open>strings.TrimSpace\<close>, and a line that is empty after the
  trimming is not added.
\<close>

theorem history_hygiene:
  assumes "history_clean (history t)" and "ReadLines n ext t script = (rs, t', script')"
  shows "history_clean (history t') \<and>
         (\<forall>k\<ge>0. \<forall>e. NthPreviousEntry (history t') k = Inr (e, True) \<longrightarrow>
            e \<noteq> [] \<and> \<not> IsSpace (fst (DecodeLastRune e)))"
proof -
  have c: "history_clean (history t')" using assms by (rule clean_ReadLines)
  then show ?thesis using clean_entries [OF c] by (auto simp: nonblank_def)
qed

theorem history_hygiene_witness:
  "history_clean (history (NewTerminal [0x3E, 0x20])) \<and>
   fst (ReadLines 3 specExternals (NewTerminal [0x3E, 0x20]) threeLines) =
     [Line (str ''  ls '') None, Line (str ''   '') None, Line [] None] \<and>
   NthPreviousEntry (history (fst (snd (ReadLines 3 specExternals (NewTerminal [0x3E, 0x20]) threeLines)))) 0
     = Inr (str ''ls'', True) \<and>
   NthPreviousEntry (history (fst (snd (ReadLines 3 specExternals (NewTerminal [0x3E, 0x20]) threeLines)))) 1
     = Inr ([], False) \<and>
   str ''ls'' \<noteq> [] \<and> \<not> IsSpace (fst (DecodeLastRune (str ''ls'')))"
proof -
  let ?run = "ReadLines 3 specExternals (NewTerminal [0x3E, 0x20]) threeLines"
  have c: "history_clean (history (NewTerminal [0x3E, 0x20]))"
    using ring_inv_empty by (auto simp: NewTerminal_def history_clean_def intro!: exI [of _ "[]"])
  have r: "?run = (fst ?run, fst (snd ?run), snd (snd ?run))" by simp
  have o: "fst ?run = [Line (str ''  ls '') None, Line (str ''   '') None, Line [] None]"
    by code_simp
  have e0: "NthPreviousEntry (history (fst (snd ?run))) 0 = Inr (str ''ls'', True)"
    by code_simp
  have e1: "NthPreviousEntry (history (fst (snd ?run))) 1 = Inr ([], False)"
    by code_simp
  from history_hygiene [OF c r] e0
  have "str ''ls'' \<noteq> [] \<and> \<not> IsSpace (fst (DecodeLastRune (str ''ls'')))" by auto
  with c o e0 e1 show ?thesis by blast
qed

subsection \<open>\<^verbatim>\<open>SetSize\<close>\<close>

lemma moveSeq_zero: "moveSeq 0 c = []"
  by (simp add: moveSeq_def)

lemma encode_append: "encode (xs @ ys) = encode xs @ encode ys"
  by (simp add: encode_def)

lemma clearDown_unfold:
  "clearDown n t =
     t\<lparr>cursorY := cursorY t + int n,
       outBuf := outBuf t @ concat (replicate n (encode [27, 0x5B, 0x42] @ encode [27, 0x5B, 0x4B]))\<rparr>"
proof (induction n arbitrary: t)
  case 0
  then show ?case by simp
next
  case (Suc n)
  show ?case
    by (simp add: Suc.IH clearLineToRight_def move_def queue_def moveSeq_def
          replicate_append_same [symmetric] del: replicate_Suc replicate.simps)
       (simp add: replicate_append_same)
qed

lemma clearAndRepaint_unfold:
  "clearAndRepaintLinePlusNPrevious t k =
     repaint (t\<lparr>cursorX := 0, cursorY := 0,
                outBuf := outBuf t @ clearSeq (cursorY t) (cursorX t) (nat k)\<rparr>)"
  by (simp add: clearAndRepaintLinePlusNPrevious_def repaint_def clearDown_unfold Let_def
        clearLineToRight_def move_def queue_def moveSeq_zero clearSeq_def encode_append)

text \<open>
  Claim C7, refuted as stated. The line buffer is empty but the prompt is on the screen
  (the cursor is in column 2): shrinking the width from 80 to 40 writes to the channel,
  moving two columns left, clearing the row and printing the prompt again.
\<close>

theorem SetSize_repaints_prompt_of_empty_line:
  "line promptShown = [] \<and> termWidth promptShown = 80 \<and>
   map_option written (SetSize promptShown 40 24) =
     Some (written promptShown @ [27, 0x5B, 0x32, 0x44, 27, 0x5B, 0x4B, 0x3E, 0x20])"
  by code_simp

text \<open>
  Claim C7, amended. \<^verbatim>\<open>SetSize(w, h)\<close> takes a width of 0 as 1 and always stores the new
  width and height. When the new width equals the old one, or when the line is empty and
  the cursor is at the origin (no prompt printed), nothing else changes and nothing is
  written. Otherwise, when the width shrinks, the rows are cleared starting from twice
  the cursor row and from the cursor column clamped below the new width, \<open>2 * maxLine\<close>
  rows below the top row are cleared with it, and the prompt and the line are painted
  again; when the width grows, the same is done from the cursor's own row and column
  with \<open>maxLine\<close> rows. The output buffer is then written to the channel.
\<close>

theorem SetSize_cases:
  "SetSize t w h =
     (let width = (if w = 0 then 1 else w);
          t1 = t\<lparr>termWidth := width, termHeight := h\<rparr>
      in if width = termWidth t \<or> (line t = [] \<and> cursorX t = 0 \<and> cursorY t = 0) then Some t1
         else if width < termWidth t then
           map_option flush
             (repaint (t1\<lparr>cursorX := 0, cursorY := 0,
                          outBuf := outBuf t @
                            clearSeq (cursorY t * 2)
                              (if cursorX t \<ge> width then width - 1 else cursorX t)
                              (nat (maxLine t * 2))\<rparr>))
         else
           map_option flush
             (repaint (t1\<lparr>cursorX := 0, cursorY := 0,
                          outBuf := outBuf t @
                            clearSeq (cursorY t) (cursorX t) (nat (maxLine t))\<rparr>)))"
  by (simp add: SetSize_def clearAndRepaint_unfold Let_def)

theorem SetSize_cases_witness:
  "map_option (\<lambda>t. (termWidth t, cursorX t, cursorY t)) (SetSize fiftyTyped 40 24) = Some (40, 10, 1) \<and>
   map_option written (SetSize fiftyTyped 40 24) =
     Some (written fiftyTyped @ clearSeq 0 39 0 @ replicate 40 0x61 @ [0x0D, 0x0A] @ replicate 10 0x61) \<and>
   map_option termWidth (SetSize fiftyTyped 0 24) = Some 1 \<and>
   SetSize promptShown 80 50 = Some (promptShown\<lparr>termHeight := 50\<rparr>)"
proof -
  have a: "map_option (\<lambda>t. (termWidth t, cursorX t, cursorY t)) (SetSize fiftyTyped 40 24) = Some (40, 10, 1)"
    unfolding SetSize_cases [of fiftyTyped 40 24] by code_simp
  have b: "map_option written (SetSize fiftyTyped 40 24) =
     Some (written fiftyTyped @ clearSeq 0 39 0 @ replicate 40 0x61 @ [0x0D, 0x0A] @ replicate 10 0x61)"
    unfolding SetSize_cases [of fiftyTyped 40 24] by code_simp
  have c: "map_option termWidth (SetSize fiftyTyped 0 24) = Some 1"
    unfolding SetSize_cases [of fiftyTyped 0 24] by code_simp
  have d: "SetSize promptShown 80 50 = Some (promptShown\<lparr>termHeight := 50\<rparr>)"
    unfolding SetSize_cases [of promptShown 80 50]
    by (simp add: promptShown_def NewTerminal_def)
  from a b c d show ?thesis by blast
qed

subsection \<open>Completion of the command token\<close>




lemma typedHel_reached:
  "(case readLine ext scenarioTerminal [ReadBytes (str ''hel'')] of
      (r, t, s) \<Rightarrow>
        (r, s, line t, pos t, cursorX t, cursorY t, maxLine t, outBuf t, remainder t, written t,
         autoCompleting t, pasteActive t, echo t, termWidth t, functionsAutoComplete t)) =
   (WaitingForInput, [], line typedHel, pos typedHel, cursorX typedHel, cursorY typedHel,
    maxLine typedHel, outBuf typedHel, remainder typedHel, written typedHel,
    autoCompleting typedHel, pasteActive typedHel, echo typedHel, termWidth typedHel,
    functionsAutoComplete typedHel)"
  by code_simp







end
